theory Spec2Isabelle
  imports Complex_Main "HOL-Library.Sublist" "HOL-Library.Multiset" "HOL-Library.AList"
begin

section \<open>Values and strings\<close>

text \<open>
  Python strings are modelled as \<^typ>\<open>string\<close>. The dynamic values that travel through the
  runtime (tool arguments, audit details, tool results) are the values \<open>json.loads\<close>
  builds: null, booleans, integers, strings, lists and string-keyed mappings. A mapping is
  an association list, looked up with \<^const>\<open>map_of\<close>. Floating point numbers are left out.
  The parsed manifest document has a type of its own, further down.
\<close>

datatype jval =
    JNull
  | JBool bool
  | JInt int
  | JStr string
  | JList "jval list"
  | JObj "(string \<times> jval) list"

text \<open>Python truthiness (\<open>not v\<close> is the negation).\<close>

fun truthy :: "jval \<Rightarrow> bool" where
  "truthy JNull = False"
| "truthy (JBool b) = b"
| "truthy (JInt i) = (i \<noteq> 0)"
| "truthy (JStr s) = (s \<noteq> [])"
| "truthy (JList xs) = (xs \<noteq> [])"
| "truthy (JObj kvs) = (kvs \<noteq> [])"

text \<open>The single quote of the f-strings, \<open>'{name}'\<close>.\<close>

definition quoted :: "string \<Rightarrow> string" where
  "quoted s = CHR 0x27 # s @ [CHR 0x27]"

text \<open>
  Exceptions. Those the code raises or lets through are values; \<open>OtherError\<close> carries the
  \<open>str(exc)\<close> of an exception of a collaborator (database, adapter, file system).
\<close>

datatype exn =
    KeyError string
  | TypeError string
  | AttributeError string
  | ValueError string
  | FileNotFoundError string
  | JSONDecodeError
  | ValidationError string
  | OverflowError string
  | OtherError string

fun exn_str :: "exn \<Rightarrow> string" where
  "exn_str (KeyError s) = quoted s"
| "exn_str (TypeError s) = s"
| "exn_str (AttributeError s) = s"
| "exn_str (ValueError s) = s"
| "exn_str (FileNotFoundError s) = s"
| "exn_str JSONDecodeError = ''JSONDecodeError''"
| "exn_str (ValidationError s) = s"
| "exn_str (OverflowError s) = s"
| "exn_str (OtherError s) = s"

section \<open>contracts/manifest.py\<close>

datatype PolicyMode = LOCAL_ONLY | DEVELOPER

fun PolicyMode_value :: "PolicyMode \<Rightarrow> string" where
  "PolicyMode_value LOCAL_ONLY = ''local_only''"
| "PolicyMode_value DEVELOPER = ''developer''"

record AppInfo =
  app_name :: string
  app_version :: string

record RuntimeConfig =
  base_url :: string
  policy_mode :: PolicyMode

record NetworkPolicy =
  outbound :: string
  allow_domains :: "string list"

record DataSqlitePolicy =
  sqlite_allow :: "string list"

record DataFilesystemPolicy =
  allow_read :: "string list"
  fs_allow_write :: "string list"

record DataVectorPolicy =
  vector_allow :: "string list"
  vector_allow_write :: "string list"

record DataPolicy =
  sqlite :: DataSqlitePolicy
  filesystem :: DataFilesystemPolicy
  vector :: DataVectorPolicy

record ToolsPolicy =
  tools_allow :: "string list"

record Policy =
  network :: NetworkPolicy
  tools :: ToolsPolicy
  data :: DataPolicy

record ModelEntry =
  model_id :: string
  context_window :: int

record ModelsConfig =
  models_backend :: string
  models_default :: string
  models_map :: "(string \<times> ModelEntry) list"

record ToolConfig =
  tool_type :: string
  read_only :: bool
  max_rows :: "int option"
  max_bytes :: "int option"

record AuditConfig =
  audit_path :: string
  redact_prompt :: bool
  redact_tool_outputs :: bool

record EmbeddingConfig =
  embedding_backend :: string
  embedding_model :: string

record VectorConfig =
  vector_backend :: string
  default_top_k :: int

record Manifest =
  app :: AppInfo
  runtime :: RuntimeConfig
  policy :: Policy
  models :: ModelsConfig
  manifest_tools :: "(string \<times> ToolConfig) list"
  audit :: AuditConfig
  embedding :: EmbeddingConfig
  vector_db :: VectorConfig

section \<open>contracts/tool\_sdk.py, contracts/policy.py\<close>

record ToolInput =
  tool_name :: string
  arguments :: jval
  call_id :: string

datatype PolicyVerdict = ALLOW | DENY

record PolicyDecision =
  verdict :: PolicyVerdict
  rule :: string
  reason :: string

section \<open>runtime/policy.py\<close>

text \<open>
  The engine's only state is \<open>self._manifest\<close>, \<open>None\<close> until \<open>load_manifest\<close> is called.
  \<open>fnmatch.fnmatch\<close> of the standard library is a parameter of the checks that use it.
\<close>

type_synonym engine = "Manifest option"

type_synonym matcher = "string \<Rightarrow> string \<Rightarrow> bool"

definition load_manifest_engine :: "engine \<Rightarrow> Manifest \<Rightarrow> engine" where
  "load_manifest_engine e m = Some m"

definition engine_mode :: "engine \<Rightarrow> PolicyMode" where
  "engine_mode e = (case e of None \<Rightarrow> LOCAL_ONLY | Some m \<Rightarrow> policy_mode (runtime m))"

definition check_tool :: "engine \<Rightarrow> ToolInput \<Rightarrow> PolicyDecision" where
  "check_tool e tool_input =
     (case e of
        None \<Rightarrow> \<lparr>verdict = DENY, rule = ''no_manifest'', reason = ''No manifest loaded''\<rparr>
      | Some m \<Rightarrow>
          if engine_mode e = DEVELOPER then
            \<lparr>verdict = ALLOW, rule = ''developer_mode'',
             reason = ''Developer mode allows all tools''\<rparr>
          else if tool_name tool_input \<in> set (tools_allow (tools (policy m))) then
            \<lparr>verdict = ALLOW, rule = ''tools.allow'',
             reason = ''Tool '' @ quoted (tool_name tool_input) @ '' is in the allow list''\<rparr>
          else
            \<lparr>verdict = DENY, rule = ''tools.allow'',
             reason = ''Tool '' @ quoted (tool_name tool_input) @ '' is not in the allow list''\<rparr>)"

text \<open>
  The \<open>for pattern in patterns: if fnmatch(path, pattern): return allow\<close> loops: the first
  matching pattern decides, and its text goes into the reason.
\<close>

definition match_patterns ::
  "matcher \<Rightarrow> string \<Rightarrow> string list \<Rightarrow> string \<Rightarrow> (string \<Rightarrow> string) \<Rightarrow> PolicyDecision
     \<Rightarrow> PolicyDecision" where
  "match_patterns fnmatch path patterns rule_name mk_reason otherwise =
     (case find (fnmatch path) patterns of
        Some pattern \<Rightarrow> \<lparr>verdict = ALLOW, rule = rule_name, reason = mk_reason pattern\<rparr>
      | None \<Rightarrow> otherwise)"

definition check_data_access :: "matcher \<Rightarrow> engine \<Rightarrow> string \<Rightarrow> string \<Rightarrow> PolicyDecision" where
  "check_data_access fnmatch e path access =
     (case e of
        None \<Rightarrow> \<lparr>verdict = DENY, rule = ''no_manifest'', reason = ''No manifest loaded''\<rparr>
      | Some m \<Rightarrow>
          if engine_mode e = DEVELOPER then
            \<lparr>verdict = ALLOW, rule = ''developer_mode'',
             reason = ''Developer mode allows all data access''\<rparr>
          else if access = ''read'' then
            (if path \<in> set (sqlite_allow (sqlite (data (policy m)))) then
               \<lparr>verdict = ALLOW, rule = ''data.sqlite.allow'',
                reason = ''SQLite path '' @ quoted path @ '' is allowed''\<rparr>
             else
               match_patterns fnmatch path (allow_read (filesystem (data (policy m))))
                 ''data.filesystem.allow_read''
                 (\<lambda>pattern. ''Path '' @ quoted path @ '' matches read pattern '' @ quoted pattern)
                 \<lparr>verdict = DENY, rule = ''data.read'',
                  reason = ''Path '' @ quoted path @ '' is not in any read allow list''\<rparr>)
          else if access = ''write'' then
            match_patterns fnmatch path (fs_allow_write (filesystem (data (policy m))))
              ''data.filesystem.allow_write''
              (\<lambda>pattern. ''Path '' @ quoted path @ '' matches write pattern '' @ quoted pattern)
              \<lparr>verdict = DENY, rule = ''data.write'',
               reason = ''Path '' @ quoted path @ '' is not in the write allow list''\<rparr>
          else if access = ''vector_read'' then
            match_patterns fnmatch path (vector_allow (vector (data (policy m))))
              ''data.vector.allow''
              (\<lambda>pattern. ''Collection '' @ quoted path @ '' matches vector read pattern ''
                           @ quoted pattern)
              \<lparr>verdict = DENY, rule = ''data.vector_read'',
               reason = ''Collection '' @ quoted path @ '' is not in the vector allow list''\<rparr>
          else if access = ''vector_write'' then
            match_patterns fnmatch path (vector_allow_write (vector (data (policy m))))
              ''data.vector.allow_write''
              (\<lambda>pattern. ''Collection '' @ quoted path @ '' matches vector write pattern ''
                           @ quoted pattern)
              \<lparr>verdict = DENY, rule = ''data.vector_write'',
               reason = ''Collection '' @ quoted path @ '' is not in the vector write allow list''\<rparr>
          else
            \<lparr>verdict = DENY, rule = ''data.unknown_access'',
             reason = ''Unknown access type '' @ quoted access\<rparr>)"

section \<open>Python list slicing\<close>

text \<open>
  A slice bound \<open>i\<close> of a list of length \<open>n\<close>: a negative bound counts from the end, and
  every bound is clamped into \<open>0..n\<close>. Note that \<open>xs[-0:]\<close> is \<open>xs[0:]\<close>, the whole list.
\<close>

definition py_bound :: "nat \<Rightarrow> int \<Rightarrow> nat" where
  "py_bound n i = (if i < 0 then nat (max 0 (int n + i)) else min n (nat i))"

definition py_slice_from :: "'a list \<Rightarrow> int \<Rightarrow> 'a list" where
  "py_slice_from xs i = drop (py_bound (length xs) i) xs"

definition py_slice_to :: "'a list \<Rightarrow> int \<Rightarrow> 'a list" where
  "py_slice_to xs j = take (py_bound (length xs) j) xs"

definition py_slice :: "'a list \<Rightarrow> int \<Rightarrow> int \<Rightarrow> 'a list" where
  "py_slice xs i j =
     (let a = py_bound (length xs) i; b = py_bound (length xs) j
      in take (b - a) (drop a xs))"

section \<open>contracts/audit.py\<close>

datatype AuditEvent = REQUEST_START | TOOL_CALL | TOOL_RESULT | REQUEST_END | POLICY_BLOCK

text \<open>\<open>ts\<close> is a \<open>datetime\<close>: microseconds since the epoch, the resolution of the type.\<close>

record AuditEntry =
  ts :: int
  request_id :: string
  event :: AuditEvent
  entry_app :: string
  entry_model :: string
  entry_policy_mode :: string
  detail :: "(string \<times> jval) list"

section \<open>runtime/audit/query.py and runtime/audit/logger.py: the readers\<close>

text \<open>
  The log file is \<open>None\<close> when the path does not exist, and otherwise its lines. A line is
  represented by what \<open>line.strip()\<close> followed by \<open>AuditEntry(**json.loads(line))\<close> makes of
  it: empty after stripping, an entry, or an exception (\<open>JSONDecodeError\<close> for text that is
  not JSON, such as a line cut short; a validation error for JSON that is not an entry).
\<close>

datatype log_line = Blank | Record AuditEntry | Malformed exn

type_synonym log_file = "log_line list option"

text \<open>The \<open>for line in f\<close> loop of \<open>_read_all\<close>, with \<open>entries\<close> as accumulator.\<close>

fun read_lines :: "log_line list \<Rightarrow> AuditEntry list \<Rightarrow> exn + AuditEntry list" where
  "read_lines [] entries = Inr entries"
| "read_lines (Blank # ls) entries = read_lines ls entries"
| "read_lines (Record e # ls) entries = read_lines ls (entries @ [e])"
| "read_lines (Malformed x # ls) entries = Inl x"

definition read_all :: "log_file \<Rightarrow> exn + AuditEntry list" where
  "read_all p = (case p of None \<Rightarrow> Inr [] | Some ls \<Rightarrow> read_lines ls [])"

text \<open>\<open>JsonlAuditLogger._read_all\<close> has the same body, on \<open>self._path\<close>.\<close>

definition logger_read_all :: "log_file \<Rightarrow> exn + AuditEntry list" where
  "logger_read_all p = (case p of None \<Rightarrow> Inr [] | Some ls \<Rightarrow> read_lines ls [])"

definition query_by_request :: "log_file \<Rightarrow> string \<Rightarrow> exn + AuditEntry list" where
  "query_by_request p rid =
     (case read_all p of
        Inl x \<Rightarrow> Inl x
      | Inr es \<Rightarrow> Inr (filter (\<lambda>e. request_id e = rid) es))"

definition query_by_event :: "log_file \<Rightarrow> AuditEvent \<Rightarrow> int \<Rightarrow> exn + AuditEntry list" where
  "query_by_event p ev limit =
     (case read_all p of
        Inl x \<Rightarrow> Inl x
      | Inr es \<Rightarrow> Inr (py_slice_from (filter (\<lambda>e. event e = ev) es) (- limit)))"

definition tail :: "log_file \<Rightarrow> int \<Rightarrow> exn + AuditEntry list" where
  "tail p n =
     (case read_all p of
        Inl x \<Rightarrow> Inl x
      | Inr es \<Rightarrow> Inr (py_slice_from es (- n)))"

definition logger_query_by_request :: "log_file \<Rightarrow> string \<Rightarrow> exn + AuditEntry list" where
  "logger_query_by_request p rid =
     (case logger_read_all p of
        Inl x \<Rightarrow> Inl x
      | Inr es \<Rightarrow> Inr (filter (\<lambda>e. request_id e = rid) es))"

definition logger_query_by_event :: "log_file \<Rightarrow> AuditEvent \<Rightarrow> int \<Rightarrow> exn + AuditEntry list" where
  "logger_query_by_event p ev limit =
     (case logger_read_all p of
        Inl x \<Rightarrow> Inl x
      | Inr es \<Rightarrow> Inr (py_slice_from (filter (\<lambda>e. event e = ev) es) (- limit)))"

definition logger_tail :: "log_file \<Rightarrow> int \<Rightarrow> exn + AuditEntry list" where
  "logger_tail p n =
     (case logger_read_all p of
        Inl x \<Rightarrow> Inl x
      | Inr es \<Rightarrow> Inr (py_slice_from es (- n)))"

text \<open>
  \<open>filtered.sort(key=lambda e: e.ts, reverse=True)\<close>: descending, and entries with equal
  keys keep their order (Python reverses, sorts stably, reverses).
\<close>

definition sort_ts_desc :: "AuditEntry list \<Rightarrow> AuditEntry list" where
  "sort_ts_desc es = rev (sort_key ts (rev es))"

definition opt_filter :: "'b option \<Rightarrow> ('b \<Rightarrow> 'a \<Rightarrow> bool) \<Rightarrow> 'a list \<Rightarrow> 'a list" where
  "opt_filter v keep xs = (case v of None \<Rightarrow> xs | Some a \<Rightarrow> filter (keep a) xs)"

definition query_filtered ::
  "log_file \<Rightarrow> AuditEvent option \<Rightarrow> int option \<Rightarrow> int option \<Rightarrow> string option \<Rightarrow> int \<Rightarrow> int
     \<Rightarrow> exn + (AuditEntry list \<times> nat)" where
  "query_filtered p ev since until rid limit offset =
     (case read_all p of
        Inl x \<Rightarrow> Inl x
      | Inr all_entries \<Rightarrow>
          let f1 = opt_filter ev (\<lambda>a e. event e = a) all_entries;
              f2 = opt_filter rid (\<lambda>a e. request_id e = a) f1;
              f3 = opt_filter since (\<lambda>a e. ts e \<ge> a) f2;
              filtered = opt_filter until (\<lambda>a e. ts e \<le> a) f3;
              total = length filtered;
              page = py_slice (sort_ts_desc filtered) offset (offset + limit)
          in Inr (page, total))"

section \<open>runtime/metrics.py: latency percentiles\<close>

text \<open>
  The loop of \<open>_latency_percentiles\<close>: \<open>starts\<close> maps a request id to the time of its last
  \<open>request.start\<close>; a \<open>request.end\<close> whose id is in \<open>starts\<close> adds a duration.
  \<open>total_seconds()\<close> is the exact quotient here, where Python has the nearest float.
\<close>

fun pair_durations ::
  "AuditEntry list \<Rightarrow> (string \<rightharpoonup> int) \<Rightarrow> rat list \<Rightarrow> rat list" where
  "pair_durations [] starts durations = durations"
| "pair_durations (e # es) starts durations =
     (if event e = REQUEST_START then
        pair_durations es (starts(request_id e \<mapsto> ts e)) durations
      else if event e = REQUEST_END then
        (case starts (request_id e) of
           Some t0 \<Rightarrow> pair_durations es starts (durations @ [of_int (ts e - t0) / 1000000])
         | None \<Rightarrow> pair_durations es starts durations)
      else pair_durations es starts durations)"

text \<open>\<open>round(x, 3)\<close>: to three decimals, an exact half going to the even neighbour.\<close>

definition round_half_even :: "rat \<Rightarrow> int" where
  "round_half_even x =
     (let f = \<lfloor>x\<rfloor>; d = x - of_int f
      in if d < 1/2 then f else if d > 1/2 then f + 1 else if even f then f else f + 1)"

definition round3 :: "rat \<Rightarrow> rat" where
  "round3 x = of_int (round_half_even (x * 1000)) / 1000"

record latency =
  p50 :: rat
  p95 :: rat
  p99 :: rat
  count :: nat

text \<open>
  \<open>int(n * 0.50)\<close> and \<open>int(min(n * p, n - 1))\<close> with the products taken exactly. For
  \<open>n \<ge> 1\<close> both indices are below \<open>n\<close>, so the subscripts never raise.
\<close>

definition percentile_index :: "nat \<Rightarrow> rat \<Rightarrow> nat" where
  "percentile_index n p = nat \<lfloor>min (of_nat n * p) (of_nat n - 1)\<rfloor>"

definition percentiles :: "rat list \<Rightarrow> latency" where
  "percentiles durations =
     (if durations = [] then \<lparr>p50 = 0, p95 = 0, p99 = 0, count = 0\<rparr>
      else
        let sorted_durations = sort durations; n = length sorted_durations
        in \<lparr>p50 = round3 (sorted_durations ! nat \<lfloor>of_nat n * (1/2 :: rat)\<rfloor>),
            p95 = round3 (sorted_durations ! percentile_index n (95/100)),
            p99 = round3 (sorted_durations ! percentile_index n (99/100)),
            count = n\<rparr>)"

definition latency_percentiles :: "AuditEntry list \<Rightarrow> latency" where
  "latency_percentiles entries = percentiles (pair_durations entries Map.empty [])"

section \<open>contracts/api.py\<close>

datatype Role = SYSTEM | USER | ASSISTANT | TOOL

record ToolCallFunction =
  fn_name :: string
  fn_arguments :: string

record ToolCall =
  tc_id :: string
  tc_type :: string
  tc_function :: ToolCallFunction

record Message =
  role :: Role
  content :: "string option"
  tool_calls :: "ToolCall list option"
  tool_call_id :: "string option"

text \<open>Of a \<open>ChatRequest\<close>, \<open>run\<close> reads \<open>model\<close> and \<open>messages\<close> only.\<close>

record ChatRequest =
  req_model :: string
  req_messages :: "Message list"

record TraceMeta =
  trace_request_id :: string
  trace_tools_used :: "string list"
  trace_tables_queried :: "jval list"
  trace_policy_mode :: string
  trace_model :: string

record Choice =
  choice_index :: int
  choice_message :: Message
  finish_reason :: "string option"

record ChatResponse =
  response_id :: string
  response_object :: string
  response_model :: string
  choices :: "Choice list"
  trace :: "TraceMeta option"

section \<open>contracts/tool\_sdk.py: outputs and context\<close>

record ToolOutput =
  out_call_id :: string
  out_tool_name :: string
  result :: jval
  error :: "string option"
  success :: bool

text \<open>
  \<open>manifest_data_paths\<close> is a dict that the tools read with \<open>.get(key, default)\<close>: a field is
  \<open>None\<close> when the key is absent. \<open>max_rows\<close> and \<open>max_bytes\<close> can be present with the value
  \<open>None\<close> (a tool configured without the cap), hence the second \<open>option\<close>.
\<close>

record data_paths =
  dp_sqlite_allow :: "string list option"
  dp_fs_allow_read :: "string list option"
  dp_fs_allow_write :: "string list option"
  dp_max_rows :: "int option option"
  dp_max_bytes :: "int option option"
  dp_vector_allow :: "string list option"
  dp_vector_allow_write :: "string list option"
  dp_vector_backend :: "string option"
  dp_default_top_k :: "int option"

record ToolContext =
  ctx_request_id :: string
  ctx_app_name :: string
  ctx_policy_mode :: string
  manifest_data_paths :: data_paths

section \<open>runtime/tool\_router.py\<close>

text \<open>
  The collaborators of the router. A tool is its \<open>run\<close>: it returns an output or raises.
  \<open>chat\<close> is the model adapter (it may raise); its \<open>tools\<close> argument, the registry's
  definitions, is the same in every call of a run and is left out. \<open>json_loads\<close> is \<open>None\<close>
  where \<open>json.loads\<close> raises \<open>JSONDecodeError\<close>, \<open>json_dumps\<close> is \<open>json.dumps\<close> (tool results are
  values it accepts), and \<open>now k\<close> is the clock read by the default of \<open>AuditEntry.ts\<close> when
  the log holds \<open>k\<close> entries. The logger appends to the log; a failing write to the file
  is not modelled.
\<close>

type_synonym tool = "ToolContext \<Rightarrow> jval \<Rightarrow> exn + ToolOutput"

record router =
  policy_engine :: engine
  registry :: "string \<Rightarrow> tool option"
  chat :: "Message list \<Rightarrow> string \<Rightarrow> exn + Message"
  json_loads :: "string \<Rightarrow> jval option"
  json_dumps :: "jval \<Rightarrow> string"
  now :: "nat \<Rightarrow> int"

text \<open>
  What \<open>run\<close> mutates: its local lists, the audit log behind the logger, and two
  observations, the number of \<open>adapter.chat\<close> calls and the \<open>tool.run\<close> calls made.
\<close>

record run_state =
  messages :: "Message list"
  tools_used :: "string list"
  tables_queried :: "jval list"
  audit_log :: "AuditEntry list"
  adapter_calls :: nat
  tool_runs :: "(string \<times> jval) list"

definition MAX_ITERATIONS :: nat where
  "MAX_ITERATIONS = 5"

definition new_entry ::
  "router \<Rightarrow> Manifest \<Rightarrow> string \<Rightarrow> string \<Rightarrow> AuditEvent \<Rightarrow> (string \<times> jval) list \<Rightarrow> run_state
     \<Rightarrow> AuditEntry" where
  "new_entry r manifest rid model ev det st =
     \<lparr>ts = now r (length (audit_log st)), request_id = rid, event = ev,
      entry_app = app_name (app manifest), entry_model = model,
      entry_policy_mode = PolicyMode_value (policy_mode (runtime manifest)), detail = det\<rparr>"

definition logger_log :: "AuditEntry \<Rightarrow> run_state \<Rightarrow> run_state" where
  "logger_log e st = st\<lparr>audit_log := audit_log st @ [e]\<rparr>"

definition append_message :: "Message \<Rightarrow> run_state \<Rightarrow> run_state" where
  "append_message m st = st\<lparr>messages := messages st @ [m]\<rparr>"

definition tool_message :: "string \<Rightarrow> string \<Rightarrow> Message" where
  "tool_message text cid =
     \<lparr>role = TOOL, content = Some text, tool_calls = None, tool_call_id = Some cid\<rparr>"

definition parse_args :: "router \<Rightarrow> ToolCall \<Rightarrow> jval" where
  "parse_args r tc =
     (case json_loads r (fn_arguments (tc_function tc)) of None \<Rightarrow> JObj [] | Some a \<Rightarrow> a)"

definition tool_context :: "Manifest \<Rightarrow> string \<Rightarrow> ToolContext" where
  "tool_context manifest rid =
     \<lparr>ctx_request_id = rid,
      ctx_app_name = app_name (app manifest),
      ctx_policy_mode = PolicyMode_value (policy_mode (runtime manifest)),
      manifest_data_paths =
        \<lparr>dp_sqlite_allow = Some (sqlite_allow (sqlite (data (policy manifest)))),
         dp_fs_allow_read = Some (allow_read (filesystem (data (policy manifest)))),
         dp_fs_allow_write = Some (fs_allow_write (filesystem (data (policy manifest)))),
         dp_max_rows =
           Some (case map_of (manifest_tools manifest) ''sql_query'' of
                   Some sql_config \<Rightarrow> max_rows sql_config | None \<Rightarrow> Some 100),
         dp_max_bytes =
           Some (case map_of (manifest_tools manifest) ''read_file'' of
                   Some read_config \<Rightarrow> max_bytes read_config | None \<Rightarrow> Some 65536),
         dp_vector_allow = Some (vector_allow (vector (data (policy manifest)))),
         dp_vector_allow_write = Some (vector_allow_write (vector (data (policy manifest)))),
         dp_vector_backend = Some (vector_backend (vector_db manifest)),
         dp_default_top_k = Some (default_top_k (vector_db manifest))\<rparr>\<rparr>"

text \<open>
  The \<open>try\<close> around \<open>registry.get\<close> and \<open>tool.run\<close>: \<open>except KeyError\<close> comes first, so a
  \<open>KeyError\<close> raised inside the tool is reported as an unknown tool too.
\<close>

definition execute_tool :: "router \<Rightarrow> ToolContext \<Rightarrow> string \<Rightarrow> jval \<Rightarrow> string" where
  "execute_tool r ctx name args =
     (case registry r name of
        None \<Rightarrow> json_dumps r (JObj [(''error'', JStr (''Unknown tool: '' @ name))])
      | Some t \<Rightarrow>
          (case t ctx args of
             Inl (KeyError k) \<Rightarrow> json_dumps r (JObj [(''error'', JStr (''Unknown tool: '' @ name))])
           | Inl exc \<Rightarrow> json_dumps r (JObj [(''error'', JStr (exn_str exc))])
           | Inr output \<Rightarrow>
               (case error output of
                  None \<Rightarrow>
                    json_dumps r (JObj [(''result'', result output),
                                        (''success'', JBool (success output))])
                | Some err \<Rightarrow>
                    if err \<noteq> [] then
                      json_dumps r (JObj [(''error'', JStr err), (''success'', JBool False)])
                    else
                      json_dumps r (JObj [(''result'', result output),
                                          (''success'', JBool (success output))]))))"

definition track_table :: "string \<Rightarrow> (string \<times> jval) list \<Rightarrow> run_state \<Rightarrow> run_state" where
  "track_table name kvs st =
     (if name = ''sql_query'' then
        (let table = (case map_of kvs ''table'' of None \<Rightarrow> JStr [] | Some v \<Rightarrow> v)
         in if truthy table \<and> table \<notin> set (tables_queried st)
            then st\<lparr>tables_queried := tables_queried st @ [table]\<rparr> else st)
      else st)"

text \<open>
  The body of \<open>for tc in last_message.tool_calls\<close>. \<open>ToolInput\<close> declares
  \<open>arguments: dict[str, Any]\<close>, so constructing it raises a validation error, outside any
  \<open>try\<close>, when the decoded arguments are not an object.
\<close>

definition process_tool_call ::
  "router \<Rightarrow> Manifest \<Rightarrow> string \<Rightarrow> string \<Rightarrow> ToolCall \<Rightarrow> run_state \<Rightarrow> exn option \<times> run_state" where
  "process_tool_call r manifest rid model tc st =
     (let name = fn_name (tc_function tc); args = parse_args r tc
      in case args of
           JObj kvs \<Rightarrow>
             (let tool_input = \<lparr>tool_name = name, arguments = args, call_id = tc_id tc\<rparr>;
                  decision = check_tool (policy_engine r) tool_input
              in if verdict decision = DENY then
                   (let st1 = logger_log
                                (new_entry r manifest rid model POLICY_BLOCK
                                   [(''tool'', JStr name), (''rule'', JStr (rule decision)),
                                    (''reason'', JStr (reason decision))] st) st;
                        st2 = append_message
                                (tool_message
                                   (json_dumps r
                                      (JObj [(''error'',
                                              JStr (''Policy denied: '' @ reason decision))]))
                                   (tc_id tc)) st1
                    in (None, st2))
                 else
                   (let st1 = logger_log
                                (new_entry r manifest rid model TOOL_CALL
                                   [(''tool'', JStr name), (''arguments'', args)] st) st;
                        ctx = tool_context manifest rid;
                        output_content = execute_tool r ctx name args;
                        st2 = (if registry r name = None then st1
                               else st1\<lparr>tool_runs := tool_runs st1 @ [(name, args)]\<rparr>);
                        st3 = st2\<lparr>tools_used := tools_used st2 @ [name]\<rparr>;
                        st4 = track_table name kvs st3;
                        st5 = logger_log
                                (new_entry r manifest rid model TOOL_RESULT
                                   [(''tool'', JStr name), (''call_id'', JStr (tc_id tc))] st4) st4;
                        st6 = append_message (tool_message output_content (tc_id tc)) st5
                    in (None, st6)))
         | _ \<Rightarrow> (Some (ValidationError ''arguments: Input should be a valid dictionary''), st))"

fun tool_loop ::
  "router \<Rightarrow> Manifest \<Rightarrow> string \<Rightarrow> string \<Rightarrow> ToolCall list \<Rightarrow> run_state \<Rightarrow> exn option \<times> run_state"
  where
  "tool_loop r manifest rid model [] st = (None, st)"
| "tool_loop r manifest rid model (tc # tcs) st =
     (case process_tool_call r manifest rid model tc st of
        (Some e, st') \<Rightarrow> (Some e, st')
      | (None, st') \<Rightarrow> tool_loop r manifest rid model tcs st')"

text \<open>
  \<open>for _ in range(MAX_ITERATIONS)\<close>, by recursion on the iterations left.
  \<open>not last_message.tool_calls\<close> holds for \<open>None\<close> and for the empty list.
\<close>

fun iterate ::
  "router \<Rightarrow> Manifest \<Rightarrow> string \<Rightarrow> string \<Rightarrow> nat \<Rightarrow> Message \<Rightarrow> run_state
     \<Rightarrow> (exn + Message) \<times> run_state" where
  "iterate r manifest rid model 0 last_message st = (Inr last_message, st)"
| "iterate r manifest rid model (Suc n) last_message st =
     (let st1 = st\<lparr>adapter_calls := adapter_calls st + 1\<rparr>
      in case chat r (messages st) model of
           Inl e \<Rightarrow> (Inl e, st1)
         | Inr reply \<Rightarrow>
             (case tool_calls reply of
                None \<Rightarrow> (Inr reply, st1)
              | Some [] \<Rightarrow> (Inr reply, st1)
              | Some tcs \<Rightarrow>
                  (case tool_loop r manifest rid model tcs (append_message reply st1) of
                     (Some e, st2) \<Rightarrow> (Inl e, st2)
                   | (None, st2) \<Rightarrow> iterate r manifest rid model n reply st2)))"

definition system_prompt :: "Manifest \<Rightarrow> Message" where
  "system_prompt manifest =
     \<lparr>role = SYSTEM,
      content = Some (''You are '' @ app_name (app manifest) @ '', a DomeKit-powered assistant.''),
      tool_calls = None, tool_call_id = None\<rparr>"

definition initial_messages :: "Manifest \<Rightarrow> Message list \<Rightarrow> Message list" where
  "initial_messages manifest msgs =
     (case msgs of
        [] \<Rightarrow> []
      | m # ms \<Rightarrow> if role m \<noteq> SYSTEM then system_prompt manifest # msgs else msgs)"

definition effective_model :: "ChatRequest \<Rightarrow> Manifest \<Rightarrow> string" where
  "effective_model request manifest =
     (if models_default (models manifest) \<noteq> [] then models_default (models manifest)
      else req_model request)"

text \<open>
  \<open>ToolRouter.run\<close>. \<open>rid\<close> is the \<open>uuid4\<close> drawn at the start, \<open>log0\<close> the audit log before the
  call. The result pairs what \<open>run\<close> returns or raises with the final state.
\<close>

definition run ::
  "router \<Rightarrow> ChatRequest \<Rightarrow> Manifest \<Rightarrow> string \<Rightarrow> AuditEntry list
     \<Rightarrow> (exn + ChatResponse) \<times> run_state" where
  "run r request manifest rid log0 =
     (let model = effective_model request manifest;
          st0 = \<lparr>messages = [], tools_used = [], tables_queried = [], audit_log = log0,
                 adapter_calls = 0, tool_runs = []\<rparr>;
          st1 = logger_log (new_entry r manifest rid model REQUEST_START [] st0) st0;
          st2 = st1\<lparr>messages := initial_messages manifest (req_messages request)\<rparr>;
          last0 = \<lparr>role = ASSISTANT, content = Some [], tool_calls = None, tool_call_id = None\<rparr>
      in case iterate r manifest rid model MAX_ITERATIONS last0 st2 of
           (Inl e, st3) \<Rightarrow> (Inl e, st3)
         | (Inr last_message, st3) \<Rightarrow>
             (let st4 = logger_log
                          (new_entry r manifest rid model REQUEST_END
                             [(''tools_used'', JList (map JStr (tools_used st3)))] st3) st3
              in (Inr \<lparr>response_id = rid, response_object = ''chat.completion'',
                       response_model = model,
                       choices = [\<lparr>choice_index = 0, choice_message = last_message,
                                   finish_reason = Some ''stop''\<rparr>],
                       trace = Some \<lparr>trace_request_id = rid,
                                     trace_tools_used = tools_used st3,
                                     trace_tables_queried = tables_queried st3,
                                     trace_policy_mode =
                                       PolicyMode_value (policy_mode (runtime manifest)),
                                     trace_model = model\<rparr>\<rparr>,
                  st4)))"

section \<open>Built-in tools\<close>

text \<open>
  A tool receives the decoded argument object as an association list. \<open>args[key]\<close> raises
  \<open>KeyError\<close> for a missing key, and \<open>Path(v)\<close> raises \<open>TypeError\<close> for a value that is not a
  string; neither is caught inside the tools. \<open>Path.resolve\<close> depends on the file system
  and the working directory, so it is a parameter \<open>resolve\<close>.
\<close>

definition subscript :: "(string \<times> jval) list \<Rightarrow> string \<Rightarrow> exn + jval" where
  "subscript args key = (case map_of args key of None \<Rightarrow> Inl (KeyError key) | Some v \<Rightarrow> Inr v)"

definition as_path :: "jval \<Rightarrow> exn + string" where
  "as_path v =
     (case v of
        JStr s \<Rightarrow> Inr s
      | _ \<Rightarrow> Inl (TypeError ''expected str, bytes or os.PathLike object''))"

definition and_then :: "exn + 'a \<Rightarrow> ('a \<Rightarrow> exn + 'b) \<Rightarrow> exn + 'b" where
  "and_then x f = (case x of Inl e \<Rightarrow> Inl e | Inr a \<Rightarrow> f a)"

definition failed :: "string \<Rightarrow> string \<Rightarrow> string \<Rightarrow> ToolOutput" where
  "failed cid name msg =
     \<lparr>out_call_id = cid, out_tool_name = name, result = JNull, error = Some msg,
      success = False\<rparr>"

definition succeeded :: "string \<Rightarrow> string \<Rightarrow> jval \<Rightarrow> ToolOutput" where
  "succeeded cid name res =
     \<lparr>out_call_id = cid, out_tool_name = name, result = res, error = None, success = True\<rparr>"

subsection \<open>runtime/tools/sql\_query.py\<close>

text \<open>
  The database is \<open>execute\<close>: \<open>sqlite3.connect\<close> in read-only mode followed by
  \<open>conn.execute(query)\<close>, giving a cursor (its description and the rows the statement
  yields) or the exception either of them raises.
\<close>

record cursor =
  description :: "string list option"
  cursor_rows :: "jval list list"

text \<open>
  \<open>Cursor.fetchmany(size)\<close>. The argument is converted to a C \<open>int\<close>: a size outside
  \<open>-2^31 .. 2^31 - 1\<close> raises \<open>OverflowError\<close>. Within the range, CPython appends rows
  until its counter equals \<open>size\<close>, which never happens for \<open>size \<le> 0\<close>.
\<close>

definition fetchmany :: "int \<Rightarrow> 'a list \<Rightarrow> exn + 'a list" where
  "fetchmany n rows =
     (if n > 2147483647 \<or> n < - 2147483648 then
        Inl (OverflowError ''Python int too large to convert to C int'')
      else if n \<ge> 1 then Inr (take (nat n) rows)
      else Inr rows)"

definition DEFAULT_MAX_ROWS :: int where
  "DEFAULT_MAX_ROWS = 100"

text \<open>The second component is the number of rows fetched from the cursor.\<close>

definition sql_query_run ::
  "(string \<Rightarrow> string) \<Rightarrow> (string \<Rightarrow> jval \<Rightarrow> exn + cursor) \<Rightarrow> ToolContext
     \<Rightarrow> (string \<times> jval) list \<Rightarrow> (exn + ToolOutput) \<times> nat" where
  "sql_query_run resolve execute ctx args =
     (case subscript args ''db_path'' of
        Inl e \<Rightarrow> (Inl e, 0)
      | Inr db_path_v \<Rightarrow>
     (case subscript args ''query'' of
        Inl e \<Rightarrow> (Inl e, 0)
      | Inr query \<Rightarrow>
     (case as_path db_path_v of
        Inl e \<Rightarrow> (Inl e, 0)
      | Inr db_path \<Rightarrow>
          let call_id = ctx_request_id ctx;
              allowed = (case dp_sqlite_allow (manifest_data_paths ctx) of
                           None \<Rightarrow> [] | Some a \<Rightarrow> a);
              resolved = resolve db_path
          in if \<not> list_ex (\<lambda>a. resolved = resolve a) allowed then
               (Inr (failed call_id ''sql_query'' (''Database path not allowed: '' @ db_path)), 0)
             else
               (let max_rows_v = (case dp_max_rows (manifest_data_paths ctx) of
                                    None \<Rightarrow> Some DEFAULT_MAX_ROWS | Some v \<Rightarrow> v)
                in case execute resolved query of
                     Inl exc \<Rightarrow> (Inr (failed call_id ''sql_query'' (exn_str exc)), 0)
                   | Inr cur \<Rightarrow>
                       (let columns = (case description cur of None \<Rightarrow> [] | Some ds \<Rightarrow> ds)
                        in case max_rows_v of
                             None \<Rightarrow>
                               (Inr (failed call_id ''sql_query''
                                       (''unsupported operand type(s) for +: '' @ quoted ''NoneType''
                                        @ '' and '' @ quoted ''int'')), 0)
                           | Some k \<Rightarrow>
                               (case fetchmany (k + 1) (cursor_rows cur) of
                                  Inl exc \<Rightarrow>
                                    (Inr (failed call_id ''sql_query'' (exn_str exc)), 0)
                                | Inr all_rows \<Rightarrow>
                                    (let truncated = (int (length all_rows) > k);
                                         rows = py_slice_to all_rows k
                                     in (Inr (succeeded call_id ''sql_query''
                                                (JObj [(''columns'', JList (map JStr columns)),
                                                       (''rows'', JList (map JList rows)),
                                                       (''truncated'', JBool truncated)])),
                                         length all_rows))))))))"

subsection \<open>runtime/tools/vector\_search.py\<close>

text \<open>
  The two adapters given to the constructor, each \<open>None\<close> when not configured. \<open>embed\<close>
  takes the list of texts; \<open>search\<close> takes collection, query vector, \<open>top_k\<close> and filters
  and returns the dumped results. The calls made are recorded.
\<close>

record vs_adapters =
  embedding_adapter :: "(jval list \<Rightarrow> exn + jval list) option"
  vector_adapter :: "(jval \<Rightarrow> jval \<Rightarrow> jval \<Rightarrow> jval \<Rightarrow> exn + jval list) option"

record vs_calls =
  embed_calls :: "jval list list"
  search_calls :: "(jval \<times> jval \<times> jval \<times> jval) list"

definition no_calls :: vs_calls where
  "no_calls = \<lparr>embed_calls = [], search_calls = []\<rparr>"

definition args_get :: "(string \<times> jval) list \<Rightarrow> string \<Rightarrow> jval \<Rightarrow> jval" where
  "args_get args key dflt = (case map_of args key of None \<Rightarrow> dflt | Some v \<Rightarrow> v)"

text \<open>
  \<open>any(fnmatch.fnmatch(collection, pattern) for pattern in allowed)\<close>: with no pattern
  nothing is called; otherwise \<open>fnmatch\<close> raises \<open>TypeError\<close> on a name that is not a string.
\<close>

definition collection_allowed :: "matcher \<Rightarrow> jval \<Rightarrow> string list \<Rightarrow> exn + bool" where
  "collection_allowed fnmatch collection allowed =
     (if allowed = [] then Inr False
      else case collection of
             JStr c \<Rightarrow> Inr (list_ex (fnmatch c) allowed)
           | _ \<Rightarrow> Inl (TypeError ''expected str, bytes or os.PathLike object''))"

text \<open>\<open>str_of\<close> is Python's \<open>str\<close>, used by the f-string of the first error.\<close>

definition vector_search_run ::
  "matcher \<Rightarrow> (jval \<Rightarrow> string) \<Rightarrow> vs_adapters \<Rightarrow> ToolContext \<Rightarrow> (string \<times> jval) list
     \<Rightarrow> (exn + ToolOutput) \<times> vs_calls" where
  "vector_search_run fnmatch str_of self ctx args =
     (case subscript args ''collection'' of
        Inl e \<Rightarrow> (Inl e, no_calls)
      | Inr collection \<Rightarrow>
         (let query = args_get args ''query'' JNull;
              query_vector = args_get args ''query_vector'' JNull;
              top_k = args_get args ''top_k''
                        (JInt (case dp_default_top_k (manifest_data_paths ctx) of
                                 None \<Rightarrow> 10 | Some k \<Rightarrow> k));
              filters = args_get args ''filters'' JNull;
              call_id = ctx_request_id ctx;
              allowed = (case dp_vector_allow (manifest_data_paths ctx) of
                           None \<Rightarrow> [] | Some a \<Rightarrow> a)
          in (case collection_allowed fnmatch collection allowed of
               Inl e \<Rightarrow> (Inl e, no_calls)
             | Inr False \<Rightarrow>
                 (Inr (failed call_id ''vector_search''
                         (''Collection not allowed: '' @ str_of collection)), no_calls)
             | Inr True \<Rightarrow>
                 if \<not> truthy query \<and> \<not> truthy query_vector then
                   (Inr (failed call_id ''vector_search''
                           (''Either '' @ quoted ''query'' @ '' or '' @ quoted ''query_vector''
                            @ '' must be provided.'')), no_calls)
                 else
                   (case vector_adapter self of
                      None \<Rightarrow>
                        (Inr (failed call_id ''vector_search''
                                ''Vector database adapter not configured.''), no_calls)
                    | Some search_fn \<Rightarrow>
                        (let finish = (\<lambda>qv calls.
                               let calls' = calls\<lparr>search_calls :=
                                              search_calls calls @ [(collection, qv, top_k, filters)]\<rparr>
                               in case search_fn collection qv top_k filters of
                                    Inl exc \<Rightarrow>
                                      (Inr (failed call_id ''vector_search''
                                              (''Search failed: '' @ exn_str exc)), calls')
                                  | Inr results \<Rightarrow>
                                      (Inr (succeeded call_id ''vector_search''
                                              (JObj [(''results'', JList results),
                                                     (''count'', JInt (int (length results)))])),
                                       calls'))
                         in if truthy query \<and> \<not> truthy query_vector then
                              (case embedding_adapter self of
                                 None \<Rightarrow>
                                   (Inr (failed call_id ''vector_search''
                                           ''Embedding adapter not configured; provide query_vector instead.''),
                                    no_calls)
                               | Some embed_fn \<Rightarrow>
                                   (let calls = no_calls\<lparr>embed_calls := [[query]]\<rparr>
                                    in case embed_fn [query] of
                                         Inl exc \<Rightarrow>
                                           (Inr (failed call_id ''vector_search''
                                                   (''Embedding failed: '' @ exn_str exc)), calls)
                                       | Inr [] \<Rightarrow>
                                           (Inr (failed call_id ''vector_search''
                                                   ''Embedding failed: list index out of range''),
                                            calls)
                                       | Inr (v # vs) \<Rightarrow> finish v calls))
                            else finish query_vector no_calls)))))"

subsection \<open>runtime/tools/read\_file.py and runtime/tools/write\_file.py\<close>

definition DEFAULT_MAX_BYTES :: int where
  "DEFAULT_MAX_BYTES = 1048576"

text \<open>\<open>str(n)\<close> of an integer, for the f-string of the size error.\<close>

definition digit_char :: "nat \<Rightarrow> char" where
  "digit_char d = ''0123456789'' ! d"

fun str_nat :: "nat \<Rightarrow> string" where
  "str_nat n =
     (if n < 10 then [digit_char n] else str_nat (n div 10) @ [digit_char (n mod 10)])"

definition str_int :: "int \<Rightarrow> string" where
  "str_int i = (if i < 0 then CHR ''-'' # str_nat (nat (- i)) else str_nat (nat i))"

text \<open>
  The allow gate of both tools:
  \<open>any(str(resolved).startswith(str(Path(prefix).resolve())) for prefix in allowed_prefixes)\<close>.
\<close>

definition prefix_allowed :: "(string \<Rightarrow> string) \<Rightarrow> string \<Rightarrow> string list \<Rightarrow> bool" where
  "prefix_allowed resolve resolved allowed_prefixes =
     list_ex (\<lambda>p. prefix (resolve p) resolved) allowed_prefixes"

text \<open>
  \<open>read_bytes\<close> is the file system being read (it raises for a missing or unreadable
  file) and \<open>decode\<close> is \<open>bytes.decode(errors="replace")\<close>. The second component lists the
  paths handed to \<open>read_bytes\<close>.
\<close>

definition read_file_run ::
  "(string \<Rightarrow> string) \<Rightarrow> (string \<Rightarrow> exn + string) \<Rightarrow> (string \<Rightarrow> string) \<Rightarrow> ToolContext
     \<Rightarrow> (string \<times> jval) list \<Rightarrow> (exn + ToolOutput) \<times> string list" where
  "read_file_run resolve read_bytes decode ctx args =
     (case and_then (subscript args ''path'') as_path of
        Inl e \<Rightarrow> (Inl e, [])
      | Inr file_path \<Rightarrow>
         (let call_id = ctx_request_id ctx;
              allowed_prefixes = (case dp_fs_allow_read (manifest_data_paths ctx) of
                                    None \<Rightarrow> [] | Some a \<Rightarrow> a);
              resolved = resolve file_path
          in if \<not> prefix_allowed resolve resolved allowed_prefixes then
               (Inr (failed call_id ''read_file'' (''Path not allowed: '' @ file_path)), [])
             else
               (let max_bytes_v = (case dp_max_bytes (manifest_data_paths ctx) of
                                     None \<Rightarrow> Some DEFAULT_MAX_BYTES | Some v \<Rightarrow> v)
                in case read_bytes resolved of
                     Inl exc \<Rightarrow> (Inr (failed call_id ''read_file'' (exn_str exc)), [resolved])
                   | Inr bytes \<Rightarrow>
                       (Inr (succeeded call_id ''read_file''
                               (JStr (decode (case max_bytes_v of
                                                None \<Rightarrow> bytes
                                              | Some k \<Rightarrow> py_slice_to bytes k)))),
                        [resolved]))))"

text \<open>
  \<open>encode\<close> is \<open>str.encode\<close>; \<open>write_fault\<close> gives the exception that \<open>mkdir\<close> or
  \<open>write_text\<close> raises for a path, if any; \<open>files\<close> maps a path to the bytes stored there.
\<close>

definition write_file_run ::
  "(string \<Rightarrow> string) \<Rightarrow> (string \<Rightarrow> string) \<Rightarrow> (string \<Rightarrow> exn option) \<Rightarrow> ToolContext
     \<Rightarrow> (string \<times> jval) list \<Rightarrow> (string \<rightharpoonup> string) \<Rightarrow> (exn + ToolOutput) \<times> (string \<rightharpoonup> string)"
  where
  "write_file_run resolve encode write_fault ctx args files =
     (case subscript args ''path'' of
        Inl e \<Rightarrow> (Inl e, files)
      | Inr path_v \<Rightarrow>
     (case subscript args ''content'' of
        Inl e \<Rightarrow> (Inl e, files)
      | Inr content_v \<Rightarrow>
     (case as_path path_v of
        Inl e \<Rightarrow> (Inl e, files)
      | Inr file_path \<Rightarrow>
         (let call_id = ctx_request_id ctx;
              allowed_prefixes = (case dp_fs_allow_write (manifest_data_paths ctx) of
                                    None \<Rightarrow> [] | Some a \<Rightarrow> a);
              resolved = resolve file_path
          in if \<not> prefix_allowed resolve resolved allowed_prefixes then
               (Inr (failed call_id ''write_file'' (''Path not allowed: '' @ file_path)), files)
             else
               (case content_v of
                  JStr text \<Rightarrow>
                    (case (case dp_max_bytes (manifest_data_paths ctx) of
                             None \<Rightarrow> Some DEFAULT_MAX_BYTES | Some v \<Rightarrow> v) of
                       None \<Rightarrow>
                         (Inl (TypeError (quoted ''>'' @ '' not supported between instances of ''
                                 @ quoted ''int'' @ '' and '' @ quoted ''NoneType'')), files)
                     | Some k \<Rightarrow>
                         if int (length (encode text)) > k then
                           (Inr (failed call_id ''write_file''
                                   (''Content exceeds max_bytes limit ('' @ str_int k @ '')'')),
                            files)
                         else
                           (case write_fault resolved of
                              Some exc \<Rightarrow>
                                (Inr (failed call_id ''write_file'' (exn_str exc)), files)
                            | None \<Rightarrow>
                                (Inr (succeeded call_id ''write_file''
                                        (JObj [(''status'', JStr ''ok''),
                                               (''bytes_written'',
                                                JInt (int (length (encode text))))])),
                                 files(resolved \<mapsto> encode text))))
                | _ \<Rightarrow>
                    (Inl (AttributeError (''object has no attribute '' @ quoted ''encode'')),
                     files))))))"

subsection \<open>Paths and patterns for concrete runs\<close>

text \<open>
  \<open>Path(p).resolve()\<close> on a file system without symbolic links, for the working directory
  \<open>cwd\<close>: empty and \<open>.\<close> segments drop out, \<open>..\<close> removes the segment before it.
\<close>

fun split_on :: "char \<Rightarrow> string \<Rightarrow> string list" where
  "split_on c [] = [[]]"
| "split_on c (x # xs) =
     (if x = c then [] # split_on c xs
      else case split_on c xs of [] \<Rightarrow> [[x]] | s # ss \<Rightarrow> (x # s) # ss)"

definition normalize_segments :: "string list \<Rightarrow> string list" where
  "normalize_segments segs =
     foldl (\<lambda>acc seg. if seg = [] \<or> seg = ''.'' then acc
                       else if seg = ''..'' then butlast acc else acc @ [seg]) [] segs"

definition lexical_resolve :: "string \<Rightarrow> string \<Rightarrow> string" where
  "lexical_resolve cwd p =
     (let full = (case p of [] \<Rightarrow> cwd | c # cs \<Rightarrow> if c = CHR ''/'' then p else cwd @ ''/'' @ p);
          segs = normalize_segments (split_on (CHR ''/'') full)
      in if segs = [] then ''/'' else concat (map (\<lambda>s. CHR ''/'' # s) segs))"

text \<open>
  The directory-boundary reading of "inside an allowed directory": the path is the
  directory itself or continues it after a separator.
\<close>

definition path_within :: "string \<Rightarrow> string \<Rightarrow> bool" where
  "path_within dir p = (p = dir \<or> prefix (dir @ ''/'') p)"

text \<open>
  \<open>fnmatch.fnmatch(name, pat)\<close> on POSIX for patterns whose only metacharacters are \<open>*\<close>
  and \<open>?\<close> (no brackets): the whole name must match.
\<close>

fun wildcard :: "string \<Rightarrow> string \<Rightarrow> bool" where
  "wildcard [] [] = True"
| "wildcard [] (c # cs) = False"
| "wildcard (p # ps) [] = (p = CHR ''*'' \<and> wildcard ps [])"
| "wildcard (p # ps) (c # cs) =
     (if p = CHR ''*'' then wildcard ps (c # cs) \<or> wildcard (p # ps) cs
      else (p = CHR ''?'' \<or> p = c) \<and> wildcard ps cs)"

definition fnmatch_wild :: matcher where
  "fnmatch_wild name pat = wildcard pat name"

section \<open>runtime/manifest\_loader.py with the models of contracts/manifest.py\<close>

text \<open>
  What \<open>yaml.safe_load\<close> builds. Unlike a JSON object, a YAML mapping can have keys that
  are not strings (\<open>1:\<close>, \<open>true:\<close>, \<open>null:\<close>), so a mapping is an association list from
  values to values; a field is looked up under its name as a string key. Floating point
  numbers are left out.
\<close>

datatype yval =
    YNull
  | YBool bool
  | YInt int
  | YStr string
  | YList "yval list"
  | YMap "(yval \<times> yval) list"

definition is_str :: "yval \<Rightarrow> bool" where
  "is_str v = (case v of YStr s \<Rightarrow> True | _ \<Rightarrow> False)"

text \<open>
  \<open>Manifest(**data)\<close> first unpacks the mapping into keyword arguments, which raises
  \<open>TypeError\<close> when a top-level key is not a string, and then runs the validation that the
  classes of contracts/manifest.py inherit from \<open>pydantic.BaseModel\<close>. No class sets a
  \<open>model_config\<close>, so each validates under the library's defaults: the declared fields are
  looked up by name in the input mapping, a missing field takes its default or is an
  error when it has none, and keys that are not declared fields are not looked at
  (\<open>extra = 'ignore'\<close>). The keys of a \<open>dict[str, ...]\<close> field must be strings. A scalar is
  accepted here when it has the declared type; the library's coercions between scalar
  types are not modelled. The error names the first offending field, where the library
  lists them all.
\<close>

definition invalid :: "string \<Rightarrow> exn + 'a" where
  "invalid msg = Inl (ValidationError msg)"

definition v_str :: "yval \<Rightarrow> exn + string" where
  "v_str v = (case v of YStr s \<Rightarrow> Inr s | _ \<Rightarrow> invalid ''Input should be a valid string'')"

definition v_int :: "yval \<Rightarrow> exn + int" where
  "v_int v = (case v of YInt i \<Rightarrow> Inr i | _ \<Rightarrow> invalid ''Input should be a valid integer'')"

definition v_bool :: "yval \<Rightarrow> exn + bool" where
  "v_bool v = (case v of YBool b \<Rightarrow> Inr b | _ \<Rightarrow> invalid ''Input should be a valid boolean'')"

definition v_opt_int :: "yval \<Rightarrow> exn + int option" where
  "v_opt_int v =
     (case v of
        YNull \<Rightarrow> Inr None
      | YInt i \<Rightarrow> Inr (Some i)
      | _ \<Rightarrow> invalid ''Input should be a valid integer'')"

definition v_policy_mode :: "yval \<Rightarrow> exn + PolicyMode" where
  "v_policy_mode v =
     (if v = YStr ''local_only'' then Inr LOCAL_ONLY
      else if v = YStr ''developer'' then Inr DEVELOPER
      else invalid (''Input should be '' @ quoted ''local_only'' @ '' or '' @ quoted ''developer''))"

fun v_each :: "('b \<Rightarrow> exn + 'a) \<Rightarrow> 'b list \<Rightarrow> exn + 'a list" where
  "v_each v [] = Inr []"
| "v_each v (x # xs) = and_then (v x) (\<lambda>a. and_then (v_each v xs) (\<lambda>as. Inr (a # as)))"

definition v_str_list :: "yval \<Rightarrow> exn + string list" where
  "v_str_list v =
     (case v of YList xs \<Rightarrow> v_each v_str xs | _ \<Rightarrow> invalid ''Input should be a valid list'')"

definition v_model :: "((yval \<times> yval) list \<Rightarrow> exn + 'a) \<Rightarrow> yval \<Rightarrow> exn + 'a" where
  "v_model of_fields v =
     (case v of
        YMap kvs \<Rightarrow> of_fields kvs
      | _ \<Rightarrow> invalid ''Input should be a valid dictionary or instance'')"

definition v_item :: "(yval \<Rightarrow> exn + 'a) \<Rightarrow> yval \<times> yval \<Rightarrow> exn + string \<times> 'a" where
  "v_item v kx =
     (case fst kx of
        YStr s \<Rightarrow> and_then (v (snd kx)) (\<lambda>a. Inr (s, a))
      | _ \<Rightarrow> invalid ''Input should be a valid string'')"

definition v_dict :: "(yval \<Rightarrow> exn + 'a) \<Rightarrow> yval \<Rightarrow> exn + (string \<times> 'a) list" where
  "v_dict v d =
     (case d of
        YMap kvs \<Rightarrow> v_each (v_item v) kvs
      | _ \<Rightarrow> invalid ''Input should be a valid dictionary'')"

definition required :: "(yval \<times> yval) list \<Rightarrow> string \<Rightarrow> (yval \<Rightarrow> exn + 'a) \<Rightarrow> exn + 'a" where
  "required kvs name v =
     (case map_of kvs (YStr name) of None \<Rightarrow> invalid (name @ '': Field required'') | Some x \<Rightarrow> v x)"

definition optional ::
  "(yval \<times> yval) list \<Rightarrow> string \<Rightarrow> 'a \<Rightarrow> (yval \<Rightarrow> exn + 'a) \<Rightarrow> exn + 'a" where
  "optional kvs name dflt v = (case map_of kvs (YStr name) of None \<Rightarrow> Inr dflt | Some x \<Rightarrow> v x)"

definition AppInfo_fields :: "(yval \<times> yval) list \<Rightarrow> exn + AppInfo" where
  "AppInfo_fields kvs =
     and_then (required kvs ''name'' v_str) (\<lambda>n.
     and_then (optional kvs ''version'' ''0.0.1'' v_str) (\<lambda>ver.
     Inr \<lparr>app_name = n, app_version = ver\<rparr>))"

definition RuntimeConfig_fields :: "(yval \<times> yval) list \<Rightarrow> exn + RuntimeConfig" where
  "RuntimeConfig_fields kvs =
     and_then (optional kvs ''base_url'' ''http://127.0.0.1:8080'' v_str) (\<lambda>u.
     and_then (optional kvs ''policy_mode'' LOCAL_ONLY v_policy_mode) (\<lambda>pm.
     Inr \<lparr>base_url = u, policy_mode = pm\<rparr>))"

definition NetworkPolicy_fields :: "(yval \<times> yval) list \<Rightarrow> exn + NetworkPolicy" where
  "NetworkPolicy_fields kvs =
     and_then (optional kvs ''outbound'' ''deny'' v_str) (\<lambda>ob.
     and_then (optional kvs ''allow_domains'' [] v_str_list) (\<lambda>ds.
     Inr \<lparr>outbound = ob, allow_domains = ds\<rparr>))"

definition DataSqlitePolicy_fields :: "(yval \<times> yval) list \<Rightarrow> exn + DataSqlitePolicy" where
  "DataSqlitePolicy_fields kvs =
     and_then (optional kvs ''allow'' [] v_str_list) (\<lambda>a. Inr \<lparr>sqlite_allow = a\<rparr>)"

definition DataFilesystemPolicy_fields ::
  "(yval \<times> yval) list \<Rightarrow> exn + DataFilesystemPolicy" where
  "DataFilesystemPolicy_fields kvs =
     and_then (optional kvs ''allow_read'' [] v_str_list) (\<lambda>rd.
     and_then (optional kvs ''allow_write'' [] v_str_list) (\<lambda>wr.
     Inr \<lparr>allow_read = rd, fs_allow_write = wr\<rparr>))"

definition DataVectorPolicy_fields :: "(yval \<times> yval) list \<Rightarrow> exn + DataVectorPolicy" where
  "DataVectorPolicy_fields kvs =
     and_then (optional kvs ''allow'' [] v_str_list) (\<lambda>rd.
     and_then (optional kvs ''allow_write'' [] v_str_list) (\<lambda>wr.
     Inr \<lparr>vector_allow = rd, vector_allow_write = wr\<rparr>))"

definition DataPolicy_fields :: "(yval \<times> yval) list \<Rightarrow> exn + DataPolicy" where
  "DataPolicy_fields kvs =
     and_then (optional kvs ''sqlite'' \<lparr>sqlite_allow = []\<rparr> (v_model DataSqlitePolicy_fields))
       (\<lambda>sq.
     and_then (optional kvs ''filesystem'' \<lparr>allow_read = [], fs_allow_write = []\<rparr>
                 (v_model DataFilesystemPolicy_fields)) (\<lambda>fs.
     and_then (optional kvs ''vector'' \<lparr>vector_allow = [], vector_allow_write = []\<rparr>
                 (v_model DataVectorPolicy_fields)) (\<lambda>vec.
     Inr \<lparr>sqlite = sq, filesystem = fs, vector = vec\<rparr>)))"

definition ToolsPolicy_fields :: "(yval \<times> yval) list \<Rightarrow> exn + ToolsPolicy" where
  "ToolsPolicy_fields kvs =
     and_then (optional kvs ''allow'' [] v_str_list) (\<lambda>a. Inr \<lparr>tools_allow = a\<rparr>)"

definition default_DataPolicy :: DataPolicy where
  "default_DataPolicy =
     \<lparr>sqlite = \<lparr>sqlite_allow = []\<rparr>,
      filesystem = \<lparr>allow_read = [], fs_allow_write = []\<rparr>,
      vector = \<lparr>vector_allow = [], vector_allow_write = []\<rparr>\<rparr>"

definition default_Policy :: Policy where
  "default_Policy =
     \<lparr>network = \<lparr>outbound = ''deny'', allow_domains = []\<rparr>,
      tools = \<lparr>tools_allow = []\<rparr>,
      data = default_DataPolicy\<rparr>"

definition Policy_fields :: "(yval \<times> yval) list \<Rightarrow> exn + Policy" where
  "Policy_fields kvs =
     and_then (optional kvs ''network'' \<lparr>outbound = ''deny'', allow_domains = []\<rparr>
                 (v_model NetworkPolicy_fields)) (\<lambda>nw.
     and_then (optional kvs ''tools'' \<lparr>tools_allow = []\<rparr> (v_model ToolsPolicy_fields)) (\<lambda>tl.
     and_then (optional kvs ''data'' default_DataPolicy (v_model DataPolicy_fields)) (\<lambda>dt.
     Inr \<lparr>network = nw, tools = tl, data = dt\<rparr>)))"

definition ModelEntry_fields :: "(yval \<times> yval) list \<Rightarrow> exn + ModelEntry" where
  "ModelEntry_fields kvs =
     and_then (required kvs ''id'' v_str) (\<lambda>i.
     and_then (optional kvs ''context_window'' 8192 v_int) (\<lambda>cw.
     Inr \<lparr>model_id = i, context_window = cw\<rparr>))"

definition ModelsConfig_fields :: "(yval \<times> yval) list \<Rightarrow> exn + ModelsConfig" where
  "ModelsConfig_fields kvs =
     and_then (optional kvs ''backend'' ''ollama'' v_str) (\<lambda>b.
     and_then (optional kvs ''default'' [] v_str) (\<lambda>d.
     and_then (optional kvs ''map'' [] (v_dict (v_model ModelEntry_fields))) (\<lambda>mp.
     Inr \<lparr>models_backend = b, models_default = d, models_map = mp\<rparr>)))"

definition ToolConfig_fields :: "(yval \<times> yval) list \<Rightarrow> exn + ToolConfig" where
  "ToolConfig_fields kvs =
     and_then (optional kvs ''type'' ''builtin'' v_str) (\<lambda>ty.
     and_then (optional kvs ''read_only'' False v_bool) (\<lambda>ro.
     and_then (optional kvs ''max_rows'' None v_opt_int) (\<lambda>mr.
     and_then (optional kvs ''max_bytes'' None v_opt_int) (\<lambda>mb.
     Inr \<lparr>tool_type = ty, read_only = ro, max_rows = mr, max_bytes = mb\<rparr>))))"

definition AuditConfig_fields :: "(yval \<times> yval) list \<Rightarrow> exn + AuditConfig" where
  "AuditConfig_fields kvs =
     and_then (optional kvs ''path'' ''audit.jsonl'' v_str) (\<lambda>p.
     and_then (optional kvs ''redact_prompt'' False v_bool) (\<lambda>rp.
     and_then (optional kvs ''redact_tool_outputs'' False v_bool) (\<lambda>rt.
     Inr \<lparr>audit_path = p, redact_prompt = rp, redact_tool_outputs = rt\<rparr>)))"

definition EmbeddingConfig_fields :: "(yval \<times> yval) list \<Rightarrow> exn + EmbeddingConfig" where
  "EmbeddingConfig_fields kvs =
     and_then (optional kvs ''backend'' ''ollama'' v_str) (\<lambda>b.
     and_then (optional kvs ''model'' ''nomic-embed-text'' v_str) (\<lambda>m.
     Inr \<lparr>embedding_backend = b, embedding_model = m\<rparr>))"

definition VectorConfig_fields :: "(yval \<times> yval) list \<Rightarrow> exn + VectorConfig" where
  "VectorConfig_fields kvs =
     and_then (optional kvs ''backend'' ''chroma'' v_str) (\<lambda>b.
     and_then (optional kvs ''default_top_k'' 10 v_int) (\<lambda>k.
     Inr \<lparr>vector_backend = b, default_top_k = k\<rparr>))"

definition Manifest_fields :: "(yval \<times> yval) list \<Rightarrow> exn + Manifest" where
  "Manifest_fields kvs =
     and_then (required kvs ''app'' (v_model AppInfo_fields)) (\<lambda>a.
     and_then (optional kvs ''runtime''
                 \<lparr>base_url = ''http://127.0.0.1:8080'', policy_mode = LOCAL_ONLY\<rparr>
                 (v_model RuntimeConfig_fields)) (\<lambda>rt.
     and_then (optional kvs ''policy'' default_Policy (v_model Policy_fields)) (\<lambda>pol.
     and_then (optional kvs ''models''
                 \<lparr>models_backend = ''ollama'', models_default = [], models_map = []\<rparr>
                 (v_model ModelsConfig_fields)) (\<lambda>mo.
     and_then (optional kvs ''tools'' [] (v_dict (v_model ToolConfig_fields))) (\<lambda>tl.
     and_then (optional kvs ''audit''
                 \<lparr>audit_path = ''audit.jsonl'', redact_prompt = False,
                  redact_tool_outputs = False\<rparr>
                 (v_model AuditConfig_fields)) (\<lambda>au.
     and_then (optional kvs ''embedding''
                 \<lparr>embedding_backend = ''ollama'', embedding_model = ''nomic-embed-text''\<rparr>
                 (v_model EmbeddingConfig_fields)) (\<lambda>em.
     and_then (optional kvs ''vector_db'' \<lparr>vector_backend = ''chroma'', default_top_k = 10\<rparr>
                 (v_model VectorConfig_fields)) (\<lambda>vd.
     Inr \<lparr>app = a, runtime = rt, policy = pol, models = mo, manifest_tools = tl,
          audit = au, embedding = em, vector_db = vd\<rparr>))))))))"

definition type_name :: "yval \<Rightarrow> string" where
  "type_name v =
     (case v of
        YNull \<Rightarrow> ''NoneType'' | YBool b \<Rightarrow> ''bool'' | YInt i \<Rightarrow> ''int'' | YStr s \<Rightarrow> ''str''
      | YList xs \<Rightarrow> ''list'' | YMap kvs \<Rightarrow> ''dict'')"

text \<open>
  The call \<open>Manifest(**data)\<close> on a mapping.
\<close>

definition Manifest_call :: "(yval \<times> yval) list \<Rightarrow> exn + Manifest" where
  "Manifest_call kvs =
     (if list_all is_str (map fst kvs) then Manifest_fields kvs
      else Inl (TypeError ''keywords must be strings''))"

text \<open>
  \<open>load_manifest\<close>. The file system maps a path to what \<open>yaml.safe_load\<close> makes of the
  file's text (a value, or the exception it raises), and is \<open>None\<close> where no file exists.
\<close>

definition load_manifest :: "(string \<rightharpoonup> exn + yval) \<Rightarrow> string \<Rightarrow> exn + Manifest" where
  "load_manifest fs path =
     (case fs path of
        None \<Rightarrow> Inl (FileNotFoundError (''Manifest not found: '' @ path))
      | Some (Inl e) \<Rightarrow> Inl e
      | Some (Inr doc) \<Rightarrow>
          (case doc of
             YMap kvs \<Rightarrow> Manifest_call kvs
           | _ \<Rightarrow> Inl (ValueError (''Manifest must be a YAML mapping, got '' @ type_name doc))))"

text \<open>
  Where a manifest document holds a mapping that one of the classes validates, and which
  fields that class declares. A place is the path of keys leading to it from the top of
  the document: \<open>[]\<close> is the document itself (\<open>Manifest\<close>), \<open>[policy, data, sqlite]\<close> the
  mapping validated by \<open>DataSqlitePolicy\<close>, \<open>[tools, n]\<close> the \<open>ToolConfig\<close> of the tool named
  \<open>n\<close>, \<open>[models, map, n]\<close> the \<open>ModelEntry\<close> named \<open>n\<close>. The result is \<open>None\<close> for a path
  that leads to no such mapping.
\<close>

definition manifest_fields :: "string list" where
  "manifest_fields =
     [''app'', ''runtime'', ''policy'', ''models'', ''tools'', ''audit'', ''embedding'',
      ''vector_db'']"

definition DataPolicy_declared :: "string list \<Rightarrow> string list option" where
  "DataPolicy_declared path =
     (if path = [] then Some [''sqlite'', ''filesystem'', ''vector'']
      else if path = [''sqlite''] then Some [''allow'']
      else if path = [''filesystem''] then Some [''allow_read'', ''allow_write'']
      else if path = [''vector''] then Some [''allow'', ''allow_write'']
      else None)"

definition Policy_declared :: "string list \<Rightarrow> string list option" where
  "Policy_declared path =
     (case path of
        [] \<Rightarrow> Some [''network'', ''tools'', ''data'']
      | p # ps \<Rightarrow>
          if p = ''network'' \<and> ps = [] then Some [''outbound'', ''allow_domains'']
          else if p = ''tools'' \<and> ps = [] then Some [''allow'']
          else if p = ''data'' then DataPolicy_declared ps
          else None)"

definition ModelsConfig_declared :: "string list \<Rightarrow> string list option" where
  "ModelsConfig_declared path =
     (case path of
        [] \<Rightarrow> Some [''backend'', ''default'', ''map'']
      | p # ps \<Rightarrow>
          if p = ''map'' \<and> length ps = 1 then Some [''id'', ''context_window''] else None)"

definition declared_at :: "string list \<Rightarrow> string list option" where
  "declared_at path =
     (case path of
        [] \<Rightarrow> Some manifest_fields
      | p # ps \<Rightarrow>
          if p = ''app'' \<and> ps = [] then Some [''name'', ''version'']
          else if p = ''runtime'' \<and> ps = [] then Some [''base_url'', ''policy_mode'']
          else if p = ''policy'' then Policy_declared ps
          else if p = ''models'' then ModelsConfig_declared ps
          else if p = ''tools'' \<and> length ps = 1
            then Some [''type'', ''read_only'', ''max_rows'', ''max_bytes'']
          else if p = ''audit'' \<and> ps = []
            then Some [''path'', ''redact_prompt'', ''redact_tool_outputs'']
          else if p = ''embedding'' \<and> ps = [] then Some [''backend'', ''model'']
          else if p = ''vector_db'' \<and> ps = [] then Some [''backend'', ''default_top_k'']
          else None)"

text \<open>
  The document with the mapping at a path replaced by \<open>f\<close> of it; the document is
  unchanged when the path does not lead to a mapping.
\<close>

fun update_at ::
  "string list \<Rightarrow> ((yval \<times> yval) list \<Rightarrow> (yval \<times> yval) list) \<Rightarrow> (yval \<times> yval) list
     \<Rightarrow> (yval \<times> yval) list" where
  "update_at [] f kvs = f kvs"
| "update_at (p # ps) f kvs =
     (case map_of kvs (YStr p) of
        Some (YMap sub) \<Rightarrow> AList.update (YStr p) (YMap (update_at ps f sub)) kvs
      | _ \<Rightarrow> kvs)"

section \<open>Concrete data from the test suite\<close>

text \<open>\<open>_make_manifest\<close> of tests/unit/test\_policy.py; the other sections keep their defaults.\<close>

definition make_manifest ::
  "PolicyMode \<Rightarrow> string list \<Rightarrow> string list \<Rightarrow> string list \<Rightarrow> string list \<Rightarrow> Manifest" where
  "make_manifest mode tools_allow_v fs_read fs_write sqlite_allow_v =
     \<lparr>app = \<lparr>app_name = ''test-app'', app_version = ''0.0.1''\<rparr>,
      runtime = \<lparr>base_url = ''http://127.0.0.1:8080'', policy_mode = mode\<rparr>,
      policy = \<lparr>network = \<lparr>outbound = ''deny'', allow_domains = []\<rparr>,
                tools = \<lparr>tools_allow = tools_allow_v\<rparr>,
                data = \<lparr>sqlite = \<lparr>sqlite_allow = sqlite_allow_v\<rparr>,
                        filesystem = \<lparr>allow_read = fs_read, fs_allow_write = fs_write\<rparr>,
                        vector = \<lparr>vector_allow = [], vector_allow_write = []\<rparr>\<rparr>\<rparr>,
      models = \<lparr>models_backend = ''ollama'', models_default = [], models_map = []\<rparr>,
      manifest_tools = [],
      audit = \<lparr>audit_path = ''audit.jsonl'', redact_prompt = False,
               redact_tool_outputs = False\<rparr>,
      embedding = \<lparr>embedding_backend = ''ollama'', embedding_model = ''nomic-embed-text''\<rparr>,
      vector_db = \<lparr>vector_backend = ''chroma'', default_top_k = 10\<rparr>\<rparr>"

definition tool_input_for :: "string \<Rightarrow> ToolInput" where
  "tool_input_for name = \<lparr>tool_name = name, arguments = JObj [], call_id = ''test-1''\<rparr>"

text \<open>
  \<open>test_computes_percentiles\<close> of tests/unit/test\_metrics.py: request \<open>r\<close>\<open>i\<close> starts
  \<open>i\<close> minutes after the first and ends \<open>i + 1\<close> seconds later, for \<open>i\<close> from 0 to 9.
\<close>

definition bare_entry :: "int \<Rightarrow> string \<Rightarrow> AuditEvent \<Rightarrow> AuditEntry" where
  "bare_entry t rid ev =
     \<lparr>ts = t, request_id = rid, event = ev, entry_app = [], entry_model = [],
      entry_policy_mode = ''local_only'', detail = []\<rparr>"

definition latency_pair :: "nat \<Rightarrow> AuditEntry list" where
  "latency_pair i =
     [bare_entry (int i * 60000000) (CHR ''r'' # str_nat i) REQUEST_START,
      bare_entry (int i * 60000000 + (int i + 1) * 1000000) (CHR ''r'' # str_nat i) REQUEST_END]"

definition latency_test_entries :: "AuditEntry list" where
  "latency_test_entries = concat (map latency_pair [0..<10])"

text \<open>
  Python's \<open>str\<close> of a value, for text without quotes, backslashes or control characters
  (for which \<open>repr\<close> of a string is the text between single quotes).
\<close>

definition join :: "string \<Rightarrow> string list \<Rightarrow> string" where
  "join sep xs = (case xs of [] \<Rightarrow> [] | y # ys \<Rightarrow> y @ concat (map (\<lambda>z. sep @ z) ys))"

fun py_repr :: "jval \<Rightarrow> string" where
  "py_repr JNull = ''None''"
| "py_repr (JBool b) = (if b then ''True'' else ''False'')"
| "py_repr (JInt i) = str_int i"
| "py_repr (JStr s) = quoted s"
| "py_repr (JList xs) = ''['' @ join '', '' (map py_repr xs) @ '']''"
| "py_repr (JObj kvs) =
     ''{'' @ join '', '' (map (\<lambda>kv. quoted (fst kv) @ '': '' @ py_repr (snd kv)) kvs) @ ''}''"

definition py_str :: "jval \<Rightarrow> string" where
  "py_str v = (case v of JStr s \<Rightarrow> s | _ \<Rightarrow> py_repr v)"

text \<open>\<open>_make_ctx\<close> of tests/unit/test\_tools.py: a key is present only when given.\<close>

definition make_ctx ::
  "string list option \<Rightarrow> string list option \<Rightarrow> string list option \<Rightarrow> int option \<Rightarrow> int option
     \<Rightarrow> ToolContext" where
  "make_ctx sqlite_allow_v fs_read fs_write max_rows_v max_bytes_v =
     \<lparr>ctx_request_id = ''test-req-1'', ctx_app_name = [], ctx_policy_mode = ''local_only'',
      manifest_data_paths =
        \<lparr>dp_sqlite_allow = sqlite_allow_v, dp_fs_allow_read = fs_read,
         dp_fs_allow_write = fs_write, dp_max_rows = map_option Some max_rows_v,
         dp_max_bytes = map_option Some max_bytes_v, dp_vector_allow = None,
         dp_vector_allow_write = None, dp_vector_backend = None, dp_default_top_k = None\<rparr>\<rparr>"

text \<open>\<open>_make_ctx\<close> of tests/unit/test\_vector\_search.py.\<close>

definition make_vector_ctx :: "string list \<Rightarrow> int \<Rightarrow> ToolContext" where
  "make_vector_ctx vector_allow_v top_k =
     \<lparr>ctx_request_id = ''test-req-1'', ctx_app_name = [], ctx_policy_mode = ''local_only'',
      manifest_data_paths =
        \<lparr>dp_sqlite_allow = None, dp_fs_allow_read = None, dp_fs_allow_write = None,
         dp_max_rows = None, dp_max_bytes = None, dp_vector_allow = Some vector_allow_v,
         dp_vector_allow_write = None, dp_vector_backend = None,
         dp_default_top_k = Some top_k\<rparr>\<rparr>"

text \<open>
  The database of the \<open>db_path\<close> fixture of tests/unit/test\_tools.py: table \<open>t\<close> with the ten
  rows \<open>(i + 1, 'row'\<close>\<open>i\<close>\<open>)\<close>, at a fixed path.
\<close>

definition ten_rows :: cursor where
  "ten_rows =
     \<lparr>description = Some [''id'', ''val''],
      cursor_rows = map (\<lambda>i. [JInt (int i + 1), JStr (''row'' @ str_nat i)]) [0..<10]\<rparr>"

definition test_db :: "string \<Rightarrow> jval \<Rightarrow> exn + cursor" where
  "test_db path query =
     (if path = ''/tmp/test.db'' \<and> query = JStr ''SELECT * FROM t'' then Inr ten_rows
      else Inl (OtherError ''unable to open database file''))"

text \<open>
  A manifest that configures \<open>sql_query\<close> without \<open>max_rows\<close>, as
  \<open>tools: {sql_query: {type: builtin, read_only: true}}\<close> does: the field keeps its default
  \<open>None\<close>.
\<close>

definition uncapped_manifest :: Manifest where
  "uncapped_manifest =
     (make_manifest LOCAL_ONLY [''sql_query''] [] [] [''/tmp/test.db''])
       \<lparr>manifest_tools :=
          [(''sql_query'',
            \<lparr>tool_type = ''builtin'', read_only = True, max_rows = None, max_bytes = None\<rparr>)]\<rparr>"

text \<open>
  \<open>_mock_vector_db\<close> of tests/unit/test\_vector\_search.py: every search returns the one
  document (its score, a float, is left out); no embedding adapter is configured.
\<close>

definition mock_vector_db :: "jval \<Rightarrow> jval \<Rightarrow> jval \<Rightarrow> jval \<Rightarrow> exn + jval list" where
  "mock_vector_db collection query_vector top_k filters =
     Inr [JObj [(''id'', JStr ''doc-1''), (''text'', JStr ''hello world''),
                (''metadata'', JObj [(''tag'', JStr ''test'')])]]"

definition vector_only :: vs_adapters where
  "vector_only = \<lparr>embedding_adapter = None, vector_adapter = Some mock_vector_db\<rparr>"

text \<open>
  A file system holding one file outside the directory \<open>/data\<close>; text in ASCII, which
  \<open>encode\<close> and \<open>decode\<close> leave as it is; no write fails.
\<close>

definition disk_read :: "(string \<rightharpoonup> string) \<Rightarrow> string \<Rightarrow> exn + string" where
  "disk_read files p =
     (case files p of
        None \<Rightarrow> Inl (FileNotFoundError (''No such file or directory: '' @ quoted p))
      | Some bytes \<Rightarrow> Inr bytes)"

definition secret_disk :: "string \<rightharpoonup> string" where
  "secret_disk = [''/data-secrets/x'' \<mapsto> ''top secret'']"

definition ascii_text :: "string \<Rightarrow> string" where
  "ascii_text s = s"

definition no_fault :: "string \<Rightarrow> exn option" where
  "no_fault p = None"


text \<open>
  \<open>json.dumps\<close> with its default separators, for text without quotes, backslashes,
  control or non-ASCII characters.
\<close>

fun dumps :: "jval \<Rightarrow> string" where
  "dumps JNull = ''null''"
| "dumps (JBool b) = (if b then ''true'' else ''false'')"
| "dumps (JInt i) = str_int i"
| "dumps (JStr s) = CHR 0x22 # s @ [CHR 0x22]"
| "dumps (JList xs) = ''['' @ join '', '' (map dumps xs) @ '']''"
| "dumps (JObj kvs) =
     ''{'' @ join '', '' (map (\<lambda>kv. CHR 0x22 # fst kv @ [CHR 0x22] @ '': '' @ dumps (snd kv)) kvs)
       @ ''}''"

text \<open>
  The scenario of tests/integration/test\_policy\_block.py: the manifest allows only
  \<open>read_file\<close>, the model first asks for \<open>sql_query\<close> and, once the conversation holds the
  denial, answers in text. \<open>json.loads\<close> is given on the one argument text that occurs.
\<close>

definition blocked_manifest :: Manifest where
  "blocked_manifest =
     (make_manifest LOCAL_ONLY [''read_file''] [''/tmp''] [] [''/tmp/health.db''])
       \<lparr>app := \<lparr>app_name = ''test-blocked'', app_version = ''0.1.0''\<rparr>,
        models := \<lparr>models_backend = ''ollama'', models_default = ''test-model'',
                   models_map = []\<rparr>\<rparr>"

definition sql_args :: jval where
  "sql_args = JObj [(''db_path'', JStr ''/tmp/health.db''), (''query'', JStr ''SELECT 1'')]"

definition sql_call :: ToolCall where
  "sql_call =
     \<lparr>tc_id = ''call_0'', tc_type = ''function'',
      tc_function = \<lparr>fn_name = ''sql_query'', fn_arguments = dumps sql_args\<rparr>\<rparr>"

definition tool_call_msg :: Message where
  "tool_call_msg =
     \<lparr>role = ASSISTANT, content = None, tool_calls = Some [sql_call], tool_call_id = None\<rparr>"

definition final_msg :: Message where
  "final_msg =
     \<lparr>role = ASSISTANT, content = Some ''I cannot run SQL queries with current permissions.'',
      tool_calls = None, tool_call_id = None\<rparr>"

definition mock_chat :: "Message list \<Rightarrow> string \<Rightarrow> exn + Message" where
  "mock_chat msgs model = (if length msgs \<le> 2 then Inr tool_call_msg else Inr final_msg)"

definition mock_loads :: "string \<Rightarrow> jval option" where
  "mock_loads s = (if s = dumps sql_args then Some sql_args else None)"

definition empty_registry :: "string \<Rightarrow> tool option" where
  "empty_registry name = None"

definition blocking_router :: router where
  "blocking_router =
     \<lparr>policy_engine = Some blocked_manifest, registry = empty_registry, chat = mock_chat,
      json_loads = mock_loads, json_dumps = dumps, now = int\<rparr>"


definition fresh_state :: run_state where
  "fresh_state =
     \<lparr>messages = [], tools_used = [], tables_queried = [], audit_log = [],
      adapter_calls = 0, tool_runs = []\<rparr>"

section \<open>Verified properties\<close>

subsection \<open>Tool policy\<close>

text \<open>
  Claim C2. With no manifest loaded, \<open>check_tool\<close> denies with rule \<open>no_manifest\<close>. With a
  manifest in developer mode it allows every tool with rule \<open>developer_mode\<close>. Otherwise
  (local-only mode) it allows exactly the tool names listed in \<open>policy.tools.allow\<close>.
\<close>

theorem check_tool_decides:
  "rule (check_tool None tool_input) = ''no_manifest''
   \<and> verdict (check_tool None tool_input) = DENY
   \<and> (policy_mode (runtime m) = DEVELOPER \<longrightarrow>
        verdict (check_tool (Some m) tool_input) = ALLOW
        \<and> rule (check_tool (Some m) tool_input) = ''developer_mode'')
   \<and> (policy_mode (runtime m) \<noteq> DEVELOPER \<longrightarrow>
        (verdict (check_tool (Some m) tool_input) = ALLOW
         \<longleftrightarrow> tool_name tool_input \<in> set (tools_allow (tools (policy m)))))"
  by (simp add: check_tool_def engine_mode_def)

theorem check_tool_decides_witness:
  "verdict (check_tool (Some (make_manifest DEVELOPER [] [] [] [])) (tool_input_for ''any_tool'')) = ALLOW
   \<and> verdict (check_tool (Some (make_manifest LOCAL_ONLY [''sql_query'', ''read_file''] [] [] []))
        (tool_input_for ''sql_query'')) = ALLOW
   \<and> verdict (check_tool (Some (make_manifest LOCAL_ONLY [''sql_query'', ''read_file''] [] [] []))
        (tool_input_for ''write_file'')) \<noteq> ALLOW"
proof -
  have dev: "policy_mode (runtime (make_manifest DEVELOPER [] [] [] [])) = DEVELOPER"
    by (simp add: make_manifest_def)
  have loc: "policy_mode (runtime (make_manifest LOCAL_ONLY [''sql_query'', ''read_file''] [] [] []))
               \<noteq> DEVELOPER"
    by (simp add: make_manifest_def)
  have inl: "tool_name (tool_input_for ''sql_query'')
               \<in> set (tools_allow (tools (policy
                    (make_manifest LOCAL_ONLY [''sql_query'', ''read_file''] [] [] []))))"
    by (simp add: make_manifest_def tool_input_for_def)
  have out: "tool_name (tool_input_for ''write_file'')
               \<notin> set (tools_allow (tools (policy
                    (make_manifest LOCAL_ONLY [''sql_query'', ''read_file''] [] [] []))))"
    by (simp add: make_manifest_def tool_input_for_def)
  show ?thesis
    using dev loc inl out
      check_tool_decides [of "tool_input_for ''any_tool''" "make_manifest DEVELOPER [] [] [] []"]
      check_tool_decides [of "tool_input_for ''sql_query''"
        "make_manifest LOCAL_ONLY [''sql_query'', ''read_file''] [] [] []"]
      check_tool_decides [of "tool_input_for ''write_file''"
        "make_manifest LOCAL_ONLY [''sql_query'', ''read_file''] [] [] []"]
    by blast
qed

subsection \<open>Data access\<close>

lemma find_Some_ex: "find P xs = Some x \<Longrightarrow> \<exists>y \<in> set xs. P y"
  by (induction xs) (auto split: if_splits)

lemma match_patterns_verdict:
  "verdict otherwise = DENY \<Longrightarrow>
   verdict (match_patterns fnm path pats rn mk otherwise) = ALLOW
     \<longleftrightarrow> (\<exists>pat \<in> set pats. fnm path pat)"
  by (auto simp: match_patterns_def find_None_iff split: option.splits dest: find_Some_ex)

text \<open>
  Claim C4, as the code has it. In local-only mode a \<open>read\<close> check allows exactly when the
  path string it was given, with no canonicalisation by the engine, is an element of
  \<open>policy.data.sqlite.allow\<close> or matches a pattern of \<open>policy.data.filesystem.allow_read\<close>;
  an access string other than the four known ones is denied.
\<close>

theorem check_data_access_read:
  assumes "policy_mode (runtime m) = LOCAL_ONLY"
  shows "(verdict (check_data_access fnm (Some m) path ''read'') = ALLOW
           \<longleftrightarrow> path \<in> set (sqlite_allow (sqlite (data (policy m))))
               \<or> (\<exists>pat \<in> set (allow_read (filesystem (data (policy m)))). fnm path pat))
         \<and> (access \<notin> {''read'', ''write'', ''vector_read'', ''vector_write''}
              \<longrightarrow> verdict (check_data_access fnm (Some m) path access) = DENY)"
  using assms
  by (simp add: check_data_access_def engine_mode_def match_patterns_verdict)

theorem check_data_access_read_witness:
  "verdict (check_data_access fnmatch_wild
      (Some (make_manifest LOCAL_ONLY [] [''data/*.csv''] [] [''health.db'']))
      ''data/report.csv'' ''read'') = ALLOW
   \<and> verdict (check_data_access fnmatch_wild
      (Some (make_manifest LOCAL_ONLY [] [''data/*.csv''] [] [''health.db'']))
      ''file.txt'' ''execute'') = DENY"
proof -
  let ?m = "make_manifest LOCAL_ONLY [] [''data/*.csv''] [] [''health.db'']"
  have loc: "policy_mode (runtime ?m) = LOCAL_ONLY"
    by (simp add: make_manifest_def)
  have hit: "\<exists>pat \<in> set (allow_read (filesystem (data (policy ?m)))).
               fnmatch_wild ''data/report.csv'' pat"
    by (simp add: make_manifest_def fnmatch_wild_def)
  have unk: "''execute'' \<notin> {''read'', ''write'', ''vector_read'', ''vector_write''}"
    by simp
  have a: "verdict (check_data_access fnmatch_wild (Some ?m) ''data/report.csv'' ''read'') = ALLOW"
    using check_data_access_read [OF loc, of fnmatch_wild "''data/report.csv''" "''execute''",
            THEN conjunct1, THEN iffD2, OF disjI2, OF hit] .
  have b: "verdict (check_data_access fnmatch_wild (Some ?m) ''file.txt'' ''execute'') = DENY"
    using check_data_access_read [OF loc, of fnmatch_wild "''file.txt''" "''execute''",
            THEN conjunct2, THEN mp, OF unk] .
  from a b show ?thesis ..
qed

text \<open>
  The claim as stated speaks of the canonicalised form of the path. The engine compares
  the string it receives: a path whose canonical form is in \<open>sqlite.allow\<close> is denied when
  it is written differently.
\<close>

theorem check_data_access_canonical_counterexample:
  "\<not> ((verdict (check_data_access fnmatch_wild
            (Some (make_manifest LOCAL_ONLY [] [] [] [''/srv/app/health.db'']))
            ''/srv/app/../app/health.db'' ''read'') = ALLOW)
       \<longleftrightarrow>
         (lexical_resolve ''/'' ''/srv/app/../app/health.db''
            \<in> set (sqlite_allow (sqlite (data (policy
                   (make_manifest LOCAL_ONLY [] [] [] [''/srv/app/health.db''])))))
          \<or> list_ex (fnmatch_wild ''/srv/app/../app/health.db'')
               (allow_read (filesystem (data (policy
                   (make_manifest LOCAL_ONLY [] [] [] [''/srv/app/health.db''])))))))"
  by (simp add: check_data_access_def engine_mode_def match_patterns_def make_manifest_def
        lexical_resolve_def normalize_segments_def)

subsection \<open>Latency percentiles\<close>

lemma percentile_index_clamp:
  assumes "0 < n" and "0 \<le> p"
  shows "percentile_index n p = min (n - 1) (nat \<lfloor>of_nat n * p\<rfloor>)"
proof -
  have a: "(of_nat n - 1 :: rat) = of_int (int n - 1)" by simp
  have m: "\<lfloor>min (of_nat n * p) (of_nat n - 1)\<rfloor> = min \<lfloor>of_nat n * p\<rfloor> (int n - 1)"
  proof (cases "of_nat n * p \<le> of_nat n - 1")
    case True
    then have "\<lfloor>of_nat n * p\<rfloor> \<le> int n - 1"
      unfolding a using floor_mono [of "of_nat n * p" "rat_of_int (int n - 1)"]
      by (simp only: floor_of_int)
    with True show ?thesis by (simp add: min_def)
  next
    case False
    then have "int n - 1 \<le> \<lfloor>of_nat n * p\<rfloor>"
      unfolding a using floor_mono [of "rat_of_int (int n - 1)" "of_nat n * p"]
      by (simp only: floor_of_int not_le less_imp_le)
    with False show ?thesis unfolding a by (simp add: min_def)
  qed
  have f0: "0 \<le> \<lfloor>of_nat n * p\<rfloor>" using assms by simp
  have "nat (min \<lfloor>of_nat n * p\<rfloor> (int n - 1)) = min (n - 1) (nat \<lfloor>of_nat n * p\<rfloor>)"
    using f0 assms(1) by (simp add: min_def) linarith
  then show ?thesis unfolding percentile_index_def m .
qed

lemma round3_of_int: "round3 (of_int k) = of_int k"
proof -
  have e: "(of_int k :: rat) * 1000 = of_int (k * 1000)" by simp
  have f: "\<lfloor>(of_int k :: rat) * 1000\<rfloor> = k * 1000" unfolding e by (rule floor_of_int)
  have "round_half_even (of_int k * 1000) = k * 1000"
    unfolding round_half_even_def Let_def f by simp
  then show ?thesis by (simp add: round3_def)
qed

lemma sort_ten:
  assumes "mset ds = mset [1, 2, 3, 4, 5, 6, 7, 8, 9, 10 :: rat]"
  shows "sort ds = [1, 2, 3, 4, 5, 6, 7, 8, 9, 10]"
  by (rule properties_for_sort) (simp_all add: assms)

lemma percentiles_of_ten:
  assumes "mset ds = mset [1, 2, 3, 4, 5, 6, 7, 8, 9, 10 :: rat]"
  shows "percentiles ds = \<lparr>p50 = 6, p95 = 10, p99 = 10, count = 10\<rparr>"
proof -
  have ne: "(ds = []) = False" using assms by auto
  have s: "sort ds = [1, 2, 3, 4, 5, 6, 7, 8, 9, 10]" by (rule sort_ten [OF assms])
  have n: "length (sort ds) = 10" by (simp add: s)
  have i50: "nat \<lfloor>of_nat 10 * (1/2 :: rat)\<rfloor> = 5" by simp
  have i95: "percentile_index 10 (95/100) = 9" by (simp add: percentile_index_def)
  have i99: "percentile_index 10 (99/100) = 9" by (simp add: percentile_index_def)
  have r6: "round3 6 = 6" using round3_of_int [of 6] by simp
  have r10: "round3 10 = 10" using round3_of_int [of 10] by simp
  have q50: "round3 (sort ds ! nat \<lfloor>of_nat (length (sort ds)) * (1/2 :: rat)\<rfloor>) = 6"
    by (simp only: n, simp only: i50, simp only: s, simp add: r6)
  have q95: "round3 (sort ds ! percentile_index (length (sort ds)) (95/100)) = 10"
    by (simp only: n, simp only: i95, simp only: s, simp add: r10)
  have q99: "round3 (sort ds ! percentile_index (length (sort ds)) (99/100)) = 10"
    by (simp only: n, simp only: i99, simp only: s, simp add: r10)
  show ?thesis
    apply (simp only: percentiles_def Let_def ne if_False q50 q95 q99)
    apply (simp only: n)
    done
qed

lemma latency_test_durations:
  "pair_durations latency_test_entries Map.empty [] = [1, 2, 3, 4, 5, 6, 7, 8, 9, 10]"
  by (simp add: latency_test_entries_def latency_pair_def bare_entry_def upt_rec)

text \<open>
  Claim C7, as the code computes it. The percentile index is \<open>floor(n * p)\<close> clamped to
  \<open>n - 1\<close>. For a log whose paired start and end entries give the ten durations
  1, 2, ..., 10 seconds, in any order, the sorted durations are indexed at 5, 9 and 9:
  p50 = 6, p95 = 10, p99 = 10, count = 10.
\<close>

theorem latency_ten_durations:
  assumes "mset (pair_durations entries Map.empty []) = mset [1, 2, 3, 4, 5, 6, 7, 8, 9, 10]"
  shows "latency_percentiles entries = \<lparr>p50 = 6, p95 = 10, p99 = 10, count = 10\<rparr>
         \<and> (0 < n \<longrightarrow>
               percentile_index n (95/100) = min (n - 1) (nat \<lfloor>of_nat n * (95/100 :: rat)\<rfloor>)
             \<and> percentile_index n (99/100) = min (n - 1) (nat \<lfloor>of_nat n * (99/100 :: rat)\<rfloor>))"
  using percentiles_of_ten [OF assms] percentile_index_clamp [of n]
  by (simp add: latency_percentiles_def)

theorem latency_ten_durations_witness:
  "latency_percentiles latency_test_entries = \<lparr>p50 = 6, p95 = 10, p99 = 10, count = 10\<rparr>
   \<and> percentile_index 10 (95/100) = min (10 - 1) (nat \<lfloor>of_nat 10 * (95/100 :: rat)\<rfloor>)"
proof -
  have h: "mset (pair_durations latency_test_entries Map.empty [])
             = mset [1, 2, 3, 4, 5, 6, 7, 8, 9, 10]"
    by (simp only: latency_test_durations)
  have pos: "0 < (10 :: nat)" by simp
  from latency_ten_durations [OF h, of 10] pos show ?thesis by blast
qed

text \<open>
  The claim as stated has p50 = 5. Index \<open>floor(10 * 0.5) = 5\<close> of the sorted durations is
  the sixth of them.
\<close>

theorem latency_p50_counterexample:
  "p50 (latency_percentiles latency_test_entries) \<noteq> 5"
proof -
  have "mset (pair_durations latency_test_entries Map.empty [])
          = mset [1, 2, 3, 4, 5, 6, 7, 8, 9, 10]"
    by (simp only: latency_test_durations)
  then have "percentiles (pair_durations latency_test_entries Map.empty [])
               = \<lparr>p50 = 6, p95 = 10, p99 = 10, count = 10\<rparr>"
    by (rule percentiles_of_ten)
  then show ?thesis by (simp add: latency_percentiles_def)
qed

subsection \<open>Audit readers\<close>

lemma read_lines_malformed:
  "\<forall>l \<in> set pre. \<forall>y. l \<noteq> Malformed y \<Longrightarrow>
   read_lines (pre @ Malformed x # post) acc = Inl x"
proof (induction pre arbitrary: acc)
  case Nil
  show ?case by simp
next
  case (Cons l pre)
  then show ?case by (cases l) simp_all
qed

lemma read_all_malformed:
  "\<forall>l \<in> set pre. \<forall>y. l \<noteq> Malformed y \<Longrightarrow>
   read_all (Some (pre @ Malformed x # post)) = Inl x
   \<and> logger_read_all (Some (pre @ Malformed x # post)) = Inl x"
  by (simp add: read_all_def logger_read_all_def read_lines_malformed)

lemma py_slice_Nil: "py_slice [] i j = []"
  by (simp add: py_slice_def)

text \<open>
  Claim C5, as the code has it. Every reader returns the empty result for a missing log
  file. A malformed line is fatal to the scan wherever it stands, the last line
  included: the reader raises the decoding error of the first malformed line and returns
  no entries. Blank lines are skipped.
\<close>

theorem readers_missing_and_malformed:
  "read_all None = Inr [] \<and> logger_read_all None = Inr []
   \<and> query_by_request None rid = Inr [] \<and> logger_query_by_request None rid = Inr []
   \<and> query_by_event None ev limit = Inr [] \<and> logger_query_by_event None ev limit = Inr []
   \<and> tail None n = Inr [] \<and> logger_tail None n = Inr []
   \<and> query_filtered None ev_opt since until rid_opt limit offset = Inr ([], 0)
   \<and> ((\<forall>l \<in> set pre. \<forall>y. l \<noteq> Malformed y) \<longrightarrow>
        read_all (Some (pre @ Malformed x # post)) = Inl x
        \<and> logger_read_all (Some (pre @ Malformed x # post)) = Inl x
        \<and> query_by_request (Some (pre @ Malformed x # post)) rid = Inl x
        \<and> logger_query_by_request (Some (pre @ Malformed x # post)) rid = Inl x
        \<and> query_by_event (Some (pre @ Malformed x # post)) ev limit = Inl x
        \<and> logger_query_by_event (Some (pre @ Malformed x # post)) ev limit = Inl x
        \<and> tail (Some (pre @ Malformed x # post)) n = Inl x
        \<and> logger_tail (Some (pre @ Malformed x # post)) n = Inl x
        \<and> query_filtered (Some (pre @ Malformed x # post)) ev_opt since until rid_opt limit offset
            = Inl x)"
proof -
  have missing: "read_all None = Inr []" "logger_read_all None = Inr []"
    by (simp_all add: read_all_def logger_read_all_def)
  have filtered: "query_filtered None ev_opt since until rid_opt limit offset = Inr ([], 0)"
    by (simp add: query_filtered_def missing opt_filter_def sort_ts_desc_def py_slice_Nil
          split: option.splits)
  have others:
    "query_by_request None rid = Inr [] \<and> logger_query_by_request None rid = Inr []
     \<and> query_by_event None ev limit = Inr [] \<and> logger_query_by_event None ev limit = Inr []
     \<and> tail None n = Inr [] \<and> logger_tail None n = Inr []"
    by (simp add: missing query_by_request_def logger_query_by_request_def
          query_by_event_def logger_query_by_event_def tail_def logger_tail_def
          py_slice_from_def)
  have fatal:
    "read_all (Some (pre @ Malformed x # post)) = Inl x
     \<and> logger_read_all (Some (pre @ Malformed x # post)) = Inl x
     \<and> query_by_request (Some (pre @ Malformed x # post)) rid = Inl x
     \<and> logger_query_by_request (Some (pre @ Malformed x # post)) rid = Inl x
     \<and> query_by_event (Some (pre @ Malformed x # post)) ev limit = Inl x
     \<and> logger_query_by_event (Some (pre @ Malformed x # post)) ev limit = Inl x
     \<and> tail (Some (pre @ Malformed x # post)) n = Inl x
     \<and> logger_tail (Some (pre @ Malformed x # post)) n = Inl x
     \<and> query_filtered (Some (pre @ Malformed x # post)) ev_opt since until rid_opt limit offset
         = Inl x"
    if "\<forall>l \<in> set pre. \<forall>y. l \<noteq> Malformed y"
    using read_all_malformed [OF that, of x post]
    by (simp add: query_by_request_def logger_query_by_request_def
          query_by_event_def logger_query_by_event_def tail_def logger_tail_def
          query_filtered_def)
  from missing filtered others fatal show ?thesis by blast
qed

theorem readers_missing_and_malformed_witness:
  "tail None 5 = Inr []
   \<and> tail (Some [Record (bare_entry 0 ''r1'' REQUEST_START), Blank,
                   Malformed JSONDecodeError, Record (bare_entry 1 ''r1'' REQUEST_END)]) 5
       = Inl JSONDecodeError"
proof -
  have h: "\<forall>l \<in> set [Record (bare_entry 0 ''r1'' REQUEST_START), Blank].
             \<forall>y. l \<noteq> Malformed y"
    by simp
  from readers_missing_and_malformed
         [where pre = "[Record (bare_entry 0 ''r1'' REQUEST_START), Blank]"
            and x = JSONDecodeError
            and post = "[Record (bare_entry 1 ''r1'' REQUEST_END)]"
            and n = 5] h
  show ?thesis by simp
qed

text \<open>
  The claim as stated has a malformed last line treated as absent. A log of one entry
  followed by a line cut short does not read as that one entry: the scan raises.
\<close>

theorem trailing_malformed_counterexample:
  "tail (Some [Record (bare_entry 0 ''r1'' REQUEST_START), Malformed JSONDecodeError]) 20
     \<noteq> Inr [bare_entry 0 ''r1'' REQUEST_START]"
  by (simp add: tail_def read_all_def)

subsection \<open>vector\_search\<close>

text \<open>
  Claim C9, as the code has it. On an allowed collection, \<open>vector_search\<close> requires at
  least one of \<open>query\<close> and \<open>query_vector\<close>: when neither is supplied (absent, null or
  empty) it returns \<open>success = false\<close> with an error and calls no adapter. When both are
  supplied and a vector adapter is configured, it does not embed the text and performs
  one search with the supplied \<open>query_vector\<close>, whose outcome it returns.
\<close>

theorem vector_search_query_inputs:
  assumes col: "map_of args ''collection'' = Some collection"
    and ok: "collection_allowed fnm collection
               (case dp_vector_allow (manifest_data_paths ctx) of None \<Rightarrow> [] | Some a \<Rightarrow> a)
             = Inr True"
  shows "(\<not> truthy (args_get args ''query'' JNull)
          \<and> \<not> truthy (args_get args ''query_vector'' JNull)
          \<longrightarrow> vector_search_run fnm str_of self ctx args
              = (Inr (failed (ctx_request_id ctx) ''vector_search''
                        (''Either '' @ quoted ''query'' @ '' or '' @ quoted ''query_vector''
                           @ '' must be provided.'')),
                 no_calls))
         \<and> (truthy (args_get args ''query'' JNull)
            \<and> truthy (args_get args ''query_vector'' JNull)
            \<and> vector_adapter self = Some search_fn
            \<longrightarrow> snd (vector_search_run fnm str_of self ctx args)
                  = \<lparr>embed_calls = [],
                     search_calls =
                       [(collection, args_get args ''query_vector'' JNull,
                         args_get args ''top_k''
                           (JInt (case dp_default_top_k (manifest_data_paths ctx) of
                                    None \<Rightarrow> 10 | Some k \<Rightarrow> k)),
                         args_get args ''filters'' JNull)]\<rparr>
                \<and> fst (vector_search_run fnm str_of self ctx args)
                  = (case search_fn collection (args_get args ''query_vector'' JNull)
                            (args_get args ''top_k''
                               (JInt (case dp_default_top_k (manifest_data_paths ctx) of
                                        None \<Rightarrow> 10 | Some k \<Rightarrow> k)))
                            (args_get args ''filters'' JNull) of
                       Inl exc \<Rightarrow>
                         Inr (failed (ctx_request_id ctx) ''vector_search''
                                (''Search failed: '' @ exn_str exc))
                     | Inr results \<Rightarrow>
                         Inr (succeeded (ctx_request_id ctx) ''vector_search''
                                (JObj [(''results'', JList results),
                                       (''count'', JInt (int (length results)))]))))"
  unfolding vector_search_run_def
  by (simp add: subscript_def col ok Let_def no_calls_def split: sum.splits)

theorem vector_search_query_inputs_witness:
  "vector_search_run fnmatch_wild py_str vector_only (make_vector_ctx [''col''] 10)
     [(''collection'', JStr ''col'')]
   = (Inr (failed ''test-req-1'' ''vector_search''
             (''Either '' @ quoted ''query'' @ '' or '' @ quoted ''query_vector''
                @ '' must be provided.'')),
      no_calls)
   \<and> snd (vector_search_run fnmatch_wild py_str vector_only (make_vector_ctx [''col''] 10)
            [(''collection'', JStr ''col''), (''query'', JStr ''hello''),
             (''query_vector'', JList [JInt 1])])
     = \<lparr>embed_calls = [],
        search_calls = [(JStr ''col'', JList [JInt 1], JInt 10, JNull)]\<rparr>"
proof -
  let ?ctx = "make_vector_ctx [''col''] 10"
  let ?none = "[(''collection'', JStr ''col'')]"
  let ?both = "[(''collection'', JStr ''col''), (''query'', JStr ''hello''),
                (''query_vector'', JList [JInt 1])]"
  have ok: "collection_allowed fnmatch_wild (JStr ''col'')
              (case dp_vector_allow (manifest_data_paths ?ctx) of None \<Rightarrow> [] | Some a \<Rightarrow> a)
            = Inr True"
    by (simp add: make_vector_ctx_def collection_allowed_def fnmatch_wild_def)
  have c1: "map_of ?none ''collection'' = Some (JStr ''col'')" by simp
  have c2: "map_of ?both ''collection'' = Some (JStr ''col'')" by simp
  have neither: "\<not> truthy (args_get ?none ''query'' JNull)
                 \<and> \<not> truthy (args_get ?none ''query_vector'' JNull)"
    by (simp add: args_get_def)
  have both: "truthy (args_get ?both ''query'' JNull)
              \<and> truthy (args_get ?both ''query_vector'' JNull)
              \<and> vector_adapter vector_only = Some mock_vector_db"
    by (simp add: args_get_def vector_only_def)
  have id: "ctx_request_id ?ctx = ''test-req-1''" by (simp add: make_vector_ctx_def)
  have vals: "args_get ?both ''query_vector'' JNull = JList [JInt 1]"
    "args_get ?both ''top_k''
       (JInt (case dp_default_top_k (manifest_data_paths ?ctx) of None \<Rightarrow> 10 | Some k \<Rightarrow> k))
     = JInt 10"
    "args_get ?both ''filters'' JNull = JNull"
    by (simp_all add: args_get_def make_vector_ctx_def)
  have a: "vector_search_run fnmatch_wild py_str vector_only ?ctx ?none
           = (Inr (failed ''test-req-1'' ''vector_search''
                     (''Either '' @ quoted ''query'' @ '' or '' @ quoted ''query_vector''
                        @ '' must be provided.'')),
              no_calls)"
    using vector_search_query_inputs
            [where fnm = fnmatch_wild and str_of = py_str and self = vector_only
               and search_fn = mock_vector_db, OF c1 ok, THEN conjunct1, THEN mp, OF neither]
    by (simp only: id)
  have b: "snd (vector_search_run fnmatch_wild py_str vector_only ?ctx ?both)
           = \<lparr>embed_calls = [],
              search_calls = [(JStr ''col'', JList [JInt 1], JInt 10, JNull)]\<rparr>"
    using vector_search_query_inputs
            [where fnm = fnmatch_wild and str_of = py_str and self = vector_only
               and search_fn = mock_vector_db, OF c2 ok, THEN conjunct2, THEN mp, OF both,
             THEN conjunct1]
    by (simp only: vals)
  from a b show ?thesis ..
qed

text \<open>
  The claim as stated has an invocation supplying both arguments fail without a search.
  With both supplied the tool searches with the given vector and succeeds.
\<close>

theorem vector_search_both_counterexample:
  "vector_search_run fnmatch_wild py_str vector_only (make_vector_ctx [''col''] 10)
     [(''collection'', JStr ''col''), (''query'', JStr ''hello''),
      (''query_vector'', JList [JInt 1])]
   = (Inr (succeeded ''test-req-1'' ''vector_search''
             (JObj [(''results'',
                     JList [JObj [(''id'', JStr ''doc-1''), (''text'', JStr ''hello world''),
                                  (''metadata'', JObj [(''tag'', JStr ''test'')])]]),
                    (''count'', JInt 1)])),
      \<lparr>embed_calls = [],
       search_calls = [(JStr ''col'', JList [JInt 1], JInt 10, JNull)]\<rparr>)"
  by (simp add: vector_search_run_def subscript_def args_get_def make_vector_ctx_def
        collection_allowed_def fnmatch_wild_def vector_only_def mock_vector_db_def
        no_calls_def Let_def)

subsection \<open>read\_file and write\_file\<close>

lemma resolve_data: "lexical_resolve ''/'' ''/data'' = ''/data''"
  by (simp add: lexical_resolve_def normalize_segments_def)

lemma resolve_sibling: "lexical_resolve ''/'' ''/data-secrets/x'' = ''/data-secrets/x''"
  by (simp add: lexical_resolve_def normalize_segments_def)

lemma resolve_sibling_new: "lexical_resolve ''/'' ''/data-secrets/y'' = ''/data-secrets/y''"
  by (simp add: lexical_resolve_def normalize_segments_def)

text \<open>
  Claim C10. The allow gate of \<open>read_file\<close> and \<open>write_file\<close> is a string-prefix test. With
  \<open>/data\<close> the only allowed entry, the path \<open>/data-secrets/x\<close> lies outside the directory
  \<open>/data\<close>, yet the gate passes: \<open>read_file\<close> returns the content of the file, and
  \<open>write_file\<close> creates \<open>/data-secrets/y\<close>.
\<close>

theorem prefix_gate_admits_sibling:
  "\<not> path_within ''/data'' ''/data-secrets/x''
   \<and> prefix_allowed (lexical_resolve ''/'') (lexical_resolve ''/'' ''/data-secrets/x'') [''/data'']
   \<and> read_file_run (lexical_resolve ''/'') (disk_read secret_disk) ascii_text
         (make_ctx None (Some [''/data'']) None None None) [(''path'', JStr ''/data-secrets/x'')]
       = (Inr (succeeded ''test-req-1'' ''read_file'' (JStr ''top secret'')),
          [''/data-secrets/x''])
   \<and> \<not> path_within ''/data'' ''/data-secrets/y''
   \<and> fst (write_file_run (lexical_resolve ''/'') ascii_text no_fault
              (make_ctx None None (Some [''/data'']) None None)
              [(''path'', JStr ''/data-secrets/y''), (''content'', JStr ''written'')] secret_disk)
       = Inr (succeeded ''test-req-1'' ''write_file''
                (JObj [(''status'', JStr ''ok''), (''bytes_written'', JInt 7)]))
   \<and> snd (write_file_run (lexical_resolve ''/'') ascii_text no_fault
              (make_ctx None None (Some [''/data'']) None None)
              [(''path'', JStr ''/data-secrets/y''), (''content'', JStr ''written'')] secret_disk)
         ''/data-secrets/y'' = Some ''written''"
proof -
  have out1: "\<not> path_within ''/data'' ''/data-secrets/x''"
    and out2: "\<not> path_within ''/data'' ''/data-secrets/y''"
    by (simp_all add: path_within_def)
  have gate1: "prefix_allowed (lexical_resolve ''/'') ''/data-secrets/x'' [''/data'']"
    and gate2: "prefix_allowed (lexical_resolve ''/'') ''/data-secrets/y'' [''/data'']"
    by (simp_all add: prefix_allowed_def resolve_data)
  have rd: "read_file_run (lexical_resolve ''/'') (disk_read secret_disk) ascii_text
              (make_ctx None (Some [''/data'']) None None None)
              [(''path'', JStr ''/data-secrets/x'')]
            = (Inr (succeeded ''test-req-1'' ''read_file'' (JStr ''top secret'')),
               [''/data-secrets/x''])"
    unfolding read_file_run_def
    by (simp add: and_then_def subscript_def as_path_def make_ctx_def resolve_sibling gate1
          disk_read_def secret_disk_def ascii_text_def DEFAULT_MAX_BYTES_def py_slice_to_def
          py_bound_def Let_def)
  have wr: "write_file_run (lexical_resolve ''/'') ascii_text no_fault
              (make_ctx None None (Some [''/data'']) None None)
              [(''path'', JStr ''/data-secrets/y''), (''content'', JStr ''written'')] secret_disk
            = (Inr (succeeded ''test-req-1'' ''write_file''
                      (JObj [(''status'', JStr ''ok''), (''bytes_written'', JInt 7)])),
               secret_disk(''/data-secrets/y'' \<mapsto> ''written''))"
    unfolding write_file_run_def
    by (simp add: subscript_def as_path_def make_ctx_def resolve_sibling_new gate2
          ascii_text_def no_fault_def DEFAULT_MAX_BYTES_def Let_def)
  show ?thesis
    unfolding rd wr resolve_sibling using out1 out2 gate1 by simp
qed

subsection \<open>Orchestrator\<close>

text \<open>
  Claim C1. When the policy check of a tool-call directive returns deny, the orchestrator
  appends one \<open>policy.block\<close> entry with detail \<open>{tool, rule, reason}\<close> to the audit log and
  one tool-role message with content \<open>json.dumps({"error": "Policy denied: <reason>"})\<close>
  and the directive's call id, and changes nothing else: no tool is run, no \<open>tool.call\<close>
  or \<open>tool.result\<close> entry is written, and \<open>tools_used\<close> is as before.
\<close>

theorem denied_call_is_blocked:
  assumes args: "parse_args r tc = JObj kvs"
    and deny: "verdict (check_tool (policy_engine r)
                 \<lparr>tool_name = fn_name (tc_function tc), arguments = JObj kvs,
                  call_id = tc_id tc\<rparr>) = DENY"
  shows "process_tool_call r manifest rid model tc st
         = (None,
            st\<lparr>audit_log := audit_log st @
                  [\<lparr>ts = now r (length (audit_log st)), request_id = rid, event = POLICY_BLOCK,
                    entry_app = app_name (app manifest), entry_model = model,
                    entry_policy_mode = PolicyMode_value (policy_mode (runtime manifest)),
                    detail =
                      [(''tool'', JStr (fn_name (tc_function tc))),
                       (''rule'', JStr (rule (check_tool (policy_engine r)
                           \<lparr>tool_name = fn_name (tc_function tc), arguments = JObj kvs,
                            call_id = tc_id tc\<rparr>))),
                       (''reason'', JStr (reason (check_tool (policy_engine r)
                           \<lparr>tool_name = fn_name (tc_function tc), arguments = JObj kvs,
                            call_id = tc_id tc\<rparr>)))]\<rparr>],
               messages := messages st @
                  [\<lparr>role = TOOL,
                    content = Some (json_dumps r (JObj [(''error'',
                        JStr (''Policy denied: '' @ reason (check_tool (policy_engine r)
                           \<lparr>tool_name = fn_name (tc_function tc), arguments = JObj kvs,
                            call_id = tc_id tc\<rparr>)))])),
                    tool_calls = None, tool_call_id = Some (tc_id tc)\<rparr>]\<rparr>)"
  unfolding process_tool_call_def
  by (simp add: args deny Let_def logger_log_def append_message_def new_entry_def
        tool_message_def)

theorem denied_call_is_blocked_witness:
  "fst (process_tool_call blocking_router blocked_manifest ''req-1'' ''test-model'' sql_call
          fresh_state) = None
   \<and> map event (audit_log (snd (process_tool_call blocking_router blocked_manifest ''req-1''
          ''test-model'' sql_call fresh_state))) = [POLICY_BLOCK]
   \<and> map tool_call_id (messages (snd (process_tool_call blocking_router blocked_manifest
          ''req-1'' ''test-model'' sql_call fresh_state))) = [Some ''call_0'']
   \<and> tools_used (snd (process_tool_call blocking_router blocked_manifest ''req-1''
          ''test-model'' sql_call fresh_state)) = []
   \<and> tool_runs (snd (process_tool_call blocking_router blocked_manifest ''req-1''
          ''test-model'' sql_call fresh_state)) = []"
proof -
  have args: "parse_args blocking_router sql_call
                = JObj [(''db_path'', JStr ''/tmp/health.db''), (''query'', JStr ''SELECT 1'')]"
    by (simp add: parse_args_def blocking_router_def sql_call_def mock_loads_def sql_args_def)
  have deny: "verdict (check_tool (policy_engine blocking_router)
                \<lparr>tool_name = fn_name (tc_function sql_call),
                 arguments = JObj [(''db_path'', JStr ''/tmp/health.db''),
                                   (''query'', JStr ''SELECT 1'')],
                 call_id = tc_id sql_call\<rparr>) = DENY"
    by (simp add: check_tool_def engine_mode_def blocking_router_def blocked_manifest_def
          make_manifest_def sql_call_def)
  from denied_call_is_blocked
         [OF args deny, of blocked_manifest "''req-1''" "''test-model''" fresh_state]
  show ?thesis by (simp add: fresh_state_def sql_call_def)
qed







subsection \<open>sql\_query\<close>

lemma fetchmany_cap:
  "0 \<le> k \<Longrightarrow> k < 2147483647 \<Longrightarrow> fetchmany (k + 1) rows = Inr (take (Suc (nat k)) rows)"
  by (simp add: fetchmany_def nat_add_distrib)

lemma fetchmany_overflow:
  "2147483647 \<le> k \<Longrightarrow>
   fetchmany (k + 1) rows = Inl (OverflowError ''Python int too large to convert to C int'')"
  by (simp add: fetchmany_def)

lemma slice_fetched:
  "0 \<le> k \<Longrightarrow> py_slice_to (take (Suc (nat k)) rows) k = take (nat k) rows"
  by (simp add: py_slice_to_def py_bound_def min_def take_Suc_conv_app_nth)

text \<open>
  Claim C8, as the code has it. Take an allowed database path, a statement that
  executes, and an integer cap \<open>max_rows = k\<close> (the value in the context, or the default
  100 when the context has no such key). For \<open>0 \<le> k < 2^31 - 1\<close>, \<open>sql_query\<close> fetches at
  most \<open>k + 1\<close> rows and returns columns, the first \<open>k\<close> rows, and \<open>truncated\<close> true
  exactly when the statement yields more than \<open>k\<close> rows: then exactly \<open>k\<close> rows are
  returned, and otherwise all of them. For \<open>k \<ge> 2^31 - 1\<close> the fetch size \<open>k + 1\<close> does
  not fit the C \<open>int\<close> that \<open>fetchmany\<close> takes: no row is fetched and the tool returns the
  structured error.
\<close>

theorem sql_query_row_cap:
  assumes db: "map_of args ''db_path'' = Some (JStr db_path)"
    and q: "map_of args ''query'' = Some query"
    and allowed: "dp_sqlite_allow (manifest_data_paths ctx) = Some allowed"
                 "\<exists>a \<in> set allowed. resolve db_path = resolve a"
    and cap: "(case dp_max_rows (manifest_data_paths ctx) of
                 None \<Rightarrow> Some DEFAULT_MAX_ROWS | Some v \<Rightarrow> v) = Some k"
    and ex: "execute (resolve db_path) query = Inr cur"
  shows "(0 \<le> k \<and> k < 2147483647 \<longrightarrow>
            snd (sql_query_run resolve execute ctx args) \<le> nat k + 1
          \<and> fst (sql_query_run resolve execute ctx args)
              = Inr (succeeded (ctx_request_id ctx) ''sql_query''
                  (JObj [(''columns'',
                          JList (map JStr (case description cur of None \<Rightarrow> [] | Some ds \<Rightarrow> ds))),
                         (''rows'', JList (map JList (take (nat k) (cursor_rows cur)))),
                         (''truncated'', JBool (nat k < length (cursor_rows cur)))]))
          \<and> (nat k < length (cursor_rows cur)
               \<longrightarrow> length (take (nat k) (cursor_rows cur)) = nat k)
          \<and> (length (cursor_rows cur) \<le> nat k
               \<longrightarrow> take (nat k) (cursor_rows cur) = cursor_rows cur))
         \<and> (2147483647 \<le> k \<longrightarrow>
              sql_query_run resolve execute ctx args
              = (Inr (failed (ctx_request_id ctx) ''sql_query''
                        ''Python int too large to convert to C int''), 0))"
proof -
  have gate: "list_ex (\<lambda>a. resolve db_path = resolve a) allowed"
    using allowed(2) by (simp add: list_ex_iff)
  have small: "sql_query_run resolve execute ctx args
      = (Inr (succeeded (ctx_request_id ctx) ''sql_query''
                 (JObj [(''columns'',
                         JList (map JStr (case description cur of None \<Rightarrow> [] | Some ds \<Rightarrow> ds))),
                        (''rows'', JList (map JList (take (nat k) (cursor_rows cur)))),
                        (''truncated'', JBool (nat k < length (cursor_rows cur)))])),
         length (take (Suc (nat k)) (cursor_rows cur)))"
    if k: "0 \<le> k" "k < 2147483647"
  proof -
    have tr: "(k < int (min (length (cursor_rows cur)) (Suc (nat k))))
                = (nat k < length (cursor_rows cur))"
      using k(1) by (auto simp: min_def)
    show ?thesis
      unfolding sql_query_run_def
      by (simp add: subscript_def as_path_def db q allowed(1) gate cap ex
            fetchmany_cap [OF k] slice_fetched [OF k(1)] tr Let_def)
  qed
  have large: "sql_query_run resolve execute ctx args
      = (Inr (failed (ctx_request_id ctx) ''sql_query''
                ''Python int too large to convert to C int''), 0)"
    if k: "2147483647 \<le> k"
    unfolding sql_query_run_def
    by (simp add: subscript_def as_path_def db q allowed(1) gate cap ex
          fetchmany_overflow [OF k] Let_def)
  show ?thesis
  proof (intro conjI impI)
    assume "0 \<le> k \<and> k < 2147483647"
    then have r: "sql_query_run resolve execute ctx args
      = (Inr (succeeded (ctx_request_id ctx) ''sql_query''
                 (JObj [(''columns'',
                         JList (map JStr (case description cur of None \<Rightarrow> [] | Some ds \<Rightarrow> ds))),
                        (''rows'', JList (map JList (take (nat k) (cursor_rows cur)))),
                        (''truncated'', JBool (nat k < length (cursor_rows cur)))])),
         length (take (Suc (nat k)) (cursor_rows cur)))"
      using small by blast
    show "snd (sql_query_run resolve execute ctx args) \<le> nat k + 1"
      unfolding r by simp
    show "fst (sql_query_run resolve execute ctx args)
            = Inr (succeeded (ctx_request_id ctx) ''sql_query''
                 (JObj [(''columns'',
                         JList (map JStr (case description cur of None \<Rightarrow> [] | Some ds \<Rightarrow> ds))),
                        (''rows'', JList (map JList (take (nat k) (cursor_rows cur)))),
                        (''truncated'', JBool (nat k < length (cursor_rows cur)))]))"
      unfolding r by simp
  next
    assume "nat k < length (cursor_rows cur)"
    then show "length (take (nat k) (cursor_rows cur)) = nat k" by simp
  next
    assume "length (cursor_rows cur) \<le> nat k"
    then show "take (nat k) (cursor_rows cur) = cursor_rows cur" by simp
  next
    assume "2147483647 \<le> k"
    then show "sql_query_run resolve execute ctx args
      = (Inr (failed (ctx_request_id ctx) ''sql_query''
                ''Python int too large to convert to C int''), 0)"
      by (rule large)
  qed
qed

theorem sql_query_row_cap_witness:
  "snd (sql_query_run (lexical_resolve ''/'') test_db
          (make_ctx (Some [''/tmp/test.db'']) None None (Some 3) None)
          [(''db_path'', JStr ''/tmp/test.db''), (''query'', JStr ''SELECT * FROM t'')]) \<le> 4
   \<and> fst (sql_query_run (lexical_resolve ''/'') test_db
          (make_ctx (Some [''/tmp/test.db'']) None None (Some 3) None)
          [(''db_path'', JStr ''/tmp/test.db''), (''query'', JStr ''SELECT * FROM t'')])
       = Inr (succeeded ''test-req-1'' ''sql_query''
               (JObj [(''columns'', JList [JStr ''id'', JStr ''val'']),
                      (''rows'', JList [JList [JInt 1, JStr ''row0''],
                                        JList [JInt 2, JStr ''row1''],
                                        JList [JInt 3, JStr ''row2'']]),
                      (''truncated'', JBool True)]))
   \<and> sql_query_run (lexical_resolve ''/'') test_db
          (make_ctx (Some [''/tmp/test.db'']) None None (Some 4000000000) None)
          [(''db_path'', JStr ''/tmp/test.db''), (''query'', JStr ''SELECT * FROM t'')]
       = (Inr (failed ''test-req-1'' ''sql_query''
                 ''Python int too large to convert to C int''), 0)"
proof -
  let ?ctx = "make_ctx (Some [''/tmp/test.db'']) None None (Some 3) None"
  let ?big = "make_ctx (Some [''/tmp/test.db'']) None None (Some 4000000000) None"
  let ?args = "[(''db_path'', JStr ''/tmp/test.db''), (''query'', JStr ''SELECT * FROM t'')]"
  have db: "map_of ?args ''db_path'' = Some (JStr ''/tmp/test.db'')" by simp
  have q: "map_of ?args ''query'' = Some (JStr ''SELECT * FROM t'')" by simp
  have al: "dp_sqlite_allow (manifest_data_paths ?ctx) = Some [''/tmp/test.db'']"
    and al': "dp_sqlite_allow (manifest_data_paths ?big) = Some [''/tmp/test.db'']"
    by (simp_all add: make_ctx_def)
  have same: "\<exists>a \<in> set [''/tmp/test.db''].
                lexical_resolve ''/'' ''/tmp/test.db'' = lexical_resolve ''/'' a"
    by simp
  have cap: "(case dp_max_rows (manifest_data_paths ?ctx) of
                None \<Rightarrow> Some DEFAULT_MAX_ROWS | Some v \<Rightarrow> v) = Some 3"
    and cap': "(case dp_max_rows (manifest_data_paths ?big) of
                None \<Rightarrow> Some DEFAULT_MAX_ROWS | Some v \<Rightarrow> v) = Some 4000000000"
    by (simp_all add: make_ctx_def)
  have k: "(0::int) \<le> 3 \<and> (3::int) < 2147483647" by simp
  have k': "(2147483647::int) \<le> 4000000000" by simp
  have r: "lexical_resolve ''/'' ''/tmp/test.db'' = ''/tmp/test.db''"
    by (simp add: lexical_resolve_def normalize_segments_def)
  have ex: "test_db (lexical_resolve ''/'' ''/tmp/test.db'') (JStr ''SELECT * FROM t'')
              = Inr ten_rows"
    by (simp only: r) (simp add: test_db_def)
  have rows: "take (nat 3) (cursor_rows ten_rows)
                = [[JInt 1, JStr ''row0''], [JInt 2, JStr ''row1''], [JInt 3, JStr ''row2'']]"
    by (simp add: ten_rows_def upt_rec digit_char_def)
  have len: "length (cursor_rows ten_rows) = 10" by (simp add: ten_rows_def)
  have d: "description ten_rows = Some [''id'', ''val'']" by (simp add: ten_rows_def)
  have c: "ctx_request_id ?ctx = ''test-req-1''" "ctx_request_id ?big = ''test-req-1''"
    by (simp_all add: make_ctx_def)
  have a: "snd (sql_query_run (lexical_resolve ''/'') test_db ?ctx ?args) \<le> 4
           \<and> fst (sql_query_run (lexical_resolve ''/'') test_db ?ctx ?args)
             = Inr (succeeded ''test-req-1'' ''sql_query''
               (JObj [(''columns'', JList [JStr ''id'', JStr ''val'']),
                      (''rows'', JList [JList [JInt 1, JStr ''row0''],
                                        JList [JInt 2, JStr ''row1''],
                                        JList [JInt 3, JStr ''row2'']]),
                      (''truncated'', JBool True)]))"
    using sql_query_row_cap [where resolve = "lexical_resolve ''/''" and execute = test_db,
            OF db q al same cap ex, THEN conjunct1, THEN mp, OF k]
    by (simp only: rows len d c) simp
  have b: "sql_query_run (lexical_resolve ''/'') test_db ?big ?args
           = (Inr (failed ''test-req-1'' ''sql_query''
                     ''Python int too large to convert to C int''), 0)"
    using sql_query_row_cap [where resolve = "lexical_resolve ''/''" and execute = test_db,
            OF db q al' same cap' ex, THEN conjunct2, THEN mp, OF k']
    by (simp only: c)
  from a b show ?thesis by (simp only: simp_thms)
qed

text \<open>
  The claim as stated promises the rows for every cap. With \<open>max_rows = 2147483647\<close> the
  statement of the test database yields ten rows, fewer than the cap, yet the tool
  returns \<open>success = false\<close> and no rows: \<open>fetchmany(2147483648)\<close> raises.
\<close>

theorem sql_query_cap_overflow_counterexample:
  "sql_query_run (lexical_resolve ''/'') test_db
      (make_ctx (Some [''/tmp/test.db'']) None None (Some 2147483647) None)
      [(''db_path'', JStr ''/tmp/test.db''), (''query'', JStr ''SELECT * FROM t'')]
   = (Inr \<lparr>out_call_id = ''test-req-1'', out_tool_name = ''sql_query'', result = JNull,
            error = Some ''Python int too large to convert to C int'', success = False\<rparr>, 0)"
  by (simp add: sql_query_run_def subscript_def as_path_def make_ctx_def lexical_resolve_def
        normalize_segments_def test_db_def fetchmany_def failed_def Let_def)

text \<open>
  The router passes \<open>max_rows = None\<close> when the manifest configures \<open>sql_query\<close> without
  the cap. Then \<open>max_rows + 1\<close> raises \<open>TypeError\<close> inside the \<open>try\<close> and every query ends in
  the structured error.
\<close>

lemma sql_query_unset_cap_fails:
  "dp_max_rows (manifest_data_paths (tool_context uncapped_manifest ''req-1'')) = Some None
   \<and> sql_query_run (lexical_resolve ''/'') test_db (tool_context uncapped_manifest ''req-1'')
        [(''db_path'', JStr ''/tmp/test.db''), (''query'', JStr ''SELECT * FROM t'')]
     = (Inr (failed ''req-1'' ''sql_query''
               (''unsupported operand type(s) for +: '' @ quoted ''NoneType''
                  @ '' and '' @ quoted ''int'')), 0)"
  by (simp add: sql_query_run_def subscript_def as_path_def tool_context_def
        uncapped_manifest_def make_manifest_def lexical_resolve_def normalize_segments_def
        test_db_def Let_def)

subsection \<open>Manifest loader\<close>

lemma required_other:
  "key \<noteq> YStr name \<Longrightarrow> required (AList.update key x kvs) name v = required kvs name v"
  by (simp add: required_def update_conv')

lemma optional_other:
  "key \<noteq> YStr name \<Longrightarrow> optional (AList.update key x kvs) name d v = optional kvs name d v"
  by (simp add: optional_def update_conv')

lemma required_at_other:
  "name \<noteq> p \<Longrightarrow> required (update_at (p # ps) f kvs) name v = required kvs name v"
  by (simp add: required_def update_conv' split: option.splits yval.splits)

lemma optional_at_other:
  "name \<noteq> p \<Longrightarrow> optional (update_at (p # ps) f kvs) name d v = optional kvs name d v"
  by (simp add: optional_def update_conv' split: option.splits yval.splits)

lemma required_at_child:
  assumes "\<And>sub. child (update_at ps f sub) = child sub"
  shows "required (update_at (p # ps) f kvs) p (v_model child) = required kvs p (v_model child)"
  using assms
  by (simp add: required_def update_conv' v_model_def split: option.splits yval.splits)

lemma optional_at_child:
  assumes "\<And>sub. child (update_at ps f sub) = child sub"
  shows "optional (update_at (p # ps) f kvs) p d (v_model child)
           = optional kvs p d (v_model child)"
  using assms
  by (simp add: optional_def update_conv' v_model_def split: option.splits yval.splits)

lemma v_each_update:
  assumes "map_of kvs k = Some old" and "g (k, new) = g (k, old)"
  shows "v_each g (AList.update k new kvs) = v_each g kvs"
  using assms
proof (induction kvs)
  case Nil
  then show ?case by simp
next
  case (Cons kv kvs)
  then show ?case by (cases kv) (auto split: if_splits)
qed

lemma v_dict_at_entry:
  assumes "\<And>sub. child (update_at ps f sub) = child sub"
  shows "v_dict (v_model child) (YMap (update_at (n # ps) f dict))
           = v_dict (v_model child) (YMap dict)"
proof (cases "map_of dict (YStr n)")
  case None
  then show ?thesis by simp
next
  case (Some old)
  show ?thesis
  proof (cases old)
    case (YMap sub)
    have "v_item (v_model child) (YStr n, YMap (update_at ps f sub))
            = v_item (v_model child) (YStr n, YMap sub)"
      by (simp add: v_item_def v_model_def assms)
    with Some YMap show ?thesis
      by (simp add: v_dict_def v_each_update)
  qed (use Some in simp_all)
qed

lemma optional_at_dict:
  assumes "\<And>sub. child (update_at ps f sub) = child sub"
  shows "optional (update_at (p # n # ps) f kvs) p d (v_dict (v_model child))
           = optional kvs p d (v_dict (v_model child))"
proof (cases "map_of kvs (YStr p)")
  case None
  then show ?thesis by simp
next
  case (Some old)
  show ?thesis
  proof (cases old)
    case (YMap dict)
    have "update_at (p # n # ps) f kvs
            = AList.update (YStr p) (YMap (update_at (n # ps) f dict)) kvs"
      using Some YMap by simp
    then show ?thesis
      using Some YMap
        v_dict_at_entry [where child = child and ps = ps and f = f and n = n and dict = dict,
          OF assms]
      by (simp add: optional_def update_conv')
  qed (use Some in simp_all)
qed

lemma AppInfo_unknown:
  "key \<notin> YStr ` set [''name'', ''version''] \<Longrightarrow>
   AppInfo_fields (AList.update key x kvs) = AppInfo_fields kvs"
  by (simp add: AppInfo_fields_def required_other optional_other)

lemma RuntimeConfig_unknown:
  "key \<notin> YStr ` set [''base_url'', ''policy_mode''] \<Longrightarrow>
   RuntimeConfig_fields (AList.update key x kvs) = RuntimeConfig_fields kvs"
  by (simp add: RuntimeConfig_fields_def required_other optional_other)

lemma NetworkPolicy_unknown:
  "key \<notin> YStr ` set [''outbound'', ''allow_domains''] \<Longrightarrow>
   NetworkPolicy_fields (AList.update key x kvs) = NetworkPolicy_fields kvs"
  by (simp add: NetworkPolicy_fields_def required_other optional_other)

lemma DataSqlitePolicy_unknown:
  "key \<notin> YStr ` set [''allow''] \<Longrightarrow>
   DataSqlitePolicy_fields (AList.update key x kvs) = DataSqlitePolicy_fields kvs"
  by (simp add: DataSqlitePolicy_fields_def required_other optional_other)

lemma DataFilesystemPolicy_unknown:
  "key \<notin> YStr ` set [''allow_read'', ''allow_write''] \<Longrightarrow>
   DataFilesystemPolicy_fields (AList.update key x kvs) = DataFilesystemPolicy_fields kvs"
  by (simp add: DataFilesystemPolicy_fields_def required_other optional_other)

lemma DataVectorPolicy_unknown:
  "key \<notin> YStr ` set [''allow'', ''allow_write''] \<Longrightarrow>
   DataVectorPolicy_fields (AList.update key x kvs) = DataVectorPolicy_fields kvs"
  by (simp add: DataVectorPolicy_fields_def required_other optional_other)

lemma ToolsPolicy_unknown:
  "key \<notin> YStr ` set [''allow''] \<Longrightarrow>
   ToolsPolicy_fields (AList.update key x kvs) = ToolsPolicy_fields kvs"
  by (simp add: ToolsPolicy_fields_def required_other optional_other)

lemma ModelEntry_unknown:
  "key \<notin> YStr ` set [''id'', ''context_window''] \<Longrightarrow>
   ModelEntry_fields (AList.update key x kvs) = ModelEntry_fields kvs"
  by (simp add: ModelEntry_fields_def required_other optional_other)

lemma ToolConfig_unknown:
  "key \<notin> YStr ` set [''type'', ''read_only'', ''max_rows'', ''max_bytes''] \<Longrightarrow>
   ToolConfig_fields (AList.update key x kvs) = ToolConfig_fields kvs"
  by (simp add: ToolConfig_fields_def required_other optional_other)

lemma AuditConfig_unknown:
  "key \<notin> YStr ` set [''path'', ''redact_prompt'', ''redact_tool_outputs''] \<Longrightarrow>
   AuditConfig_fields (AList.update key x kvs) = AuditConfig_fields kvs"
  by (simp add: AuditConfig_fields_def required_other optional_other)

lemma EmbeddingConfig_unknown:
  "key \<notin> YStr ` set [''backend'', ''model''] \<Longrightarrow>
   EmbeddingConfig_fields (AList.update key x kvs) = EmbeddingConfig_fields kvs"
  by (simp add: EmbeddingConfig_fields_def required_other optional_other)

lemma VectorConfig_unknown:
  "key \<notin> YStr ` set [''backend'', ''default_top_k''] \<Longrightarrow>
   VectorConfig_fields (AList.update key x kvs) = VectorConfig_fields kvs"
  by (simp add: VectorConfig_fields_def required_other optional_other)

lemma DataPolicy_unknown:
  "key \<notin> YStr ` set [''sqlite'', ''filesystem'', ''vector''] \<Longrightarrow>
   DataPolicy_fields (AList.update key x kvs) = DataPolicy_fields kvs"
  by (simp add: DataPolicy_fields_def required_other optional_other)

lemma Policy_unknown:
  "key \<notin> YStr ` set [''network'', ''tools'', ''data''] \<Longrightarrow>
   Policy_fields (AList.update key x kvs) = Policy_fields kvs"
  by (simp add: Policy_fields_def required_other optional_other)

lemma ModelsConfig_unknown:
  "key \<notin> YStr ` set [''backend'', ''default'', ''map''] \<Longrightarrow>
   ModelsConfig_fields (AList.update key x kvs) = ModelsConfig_fields kvs"
  by (simp add: ModelsConfig_fields_def required_other optional_other)

lemma Manifest_unknown:
  "key \<notin> YStr ` set manifest_fields \<Longrightarrow>
   Manifest_fields (AList.update key x kvs) = Manifest_fields kvs"
  by (simp add: Manifest_fields_def manifest_fields_def required_other optional_other)

lemma DataPolicy_path:
  assumes "DataPolicy_declared path = Some fs" and "key \<notin> YStr ` set fs"
  shows "DataPolicy_fields (update_at path (AList.update key x) kvs) = DataPolicy_fields kvs"
proof (cases "path = []")
  case True
  with assms(1) have "fs = [''sqlite'', ''filesystem'', ''vector'']"
    by (simp add: DataPolicy_declared_def)
  with assms(2) True show ?thesis by (simp add: DataPolicy_unknown)
next
  case n0: False
  show ?thesis
  proof (cases "path = [''sqlite'']")
    case p: True
    with assms(1) have fs: "fs = [''allow'']" by (simp add: DataPolicy_declared_def)
    have ch: "\<And>sub. DataSqlitePolicy_fields (update_at [] (AList.update key x) sub) = DataSqlitePolicy_fields sub"
      using DataSqlitePolicy_unknown [of key] assms(2) fs by simp
    show ?thesis
      unfolding p
      by (simp add: DataPolicy_fields_def optional_at_child
              [where child = DataSqlitePolicy_fields and ps = "[]" and f = "AList.update key x", OF ch] required_at_other optional_at_other
            del: update_at.simps)
  next
    case n1: False
    show ?thesis
    proof (cases "path = [''filesystem'']")
      case p: True
      with assms(1) have fs: "fs = [''allow_read'', ''allow_write'']"
        by (simp add: DataPolicy_declared_def)
    have ch: "\<And>sub. DataFilesystemPolicy_fields (update_at [] (AList.update key x) sub) = DataFilesystemPolicy_fields sub"
      using DataFilesystemPolicy_unknown [of key] assms(2) fs by simp
    show ?thesis
      unfolding p
      by (simp add: DataPolicy_fields_def optional_at_child
              [where child = DataFilesystemPolicy_fields and ps = "[]" and f = "AList.update key x", OF ch] required_at_other optional_at_other
            del: update_at.simps)
    next
      case n2: False
      show ?thesis
      proof (cases "path = [''vector'']")
        case p: True
        with assms(1) have fs: "fs = [''allow'', ''allow_write'']"
          by (simp add: DataPolicy_declared_def)
    have ch: "\<And>sub. DataVectorPolicy_fields (update_at [] (AList.update key x) sub) = DataVectorPolicy_fields sub"
      using DataVectorPolicy_unknown [of key] assms(2) fs by simp
    show ?thesis
      unfolding p
      by (simp add: DataPolicy_fields_def optional_at_child
              [where child = DataVectorPolicy_fields and ps = "[]" and f = "AList.update key x", OF ch] required_at_other optional_at_other
            del: update_at.simps)
      next
        case False
        with n0 n1 n2 assms(1) show ?thesis by (simp add: DataPolicy_declared_def)
      qed
    qed
  qed
qed

lemma Policy_path:
  assumes "Policy_declared path = Some fs" and "key \<notin> YStr ` set fs"
  shows "Policy_fields (update_at path (AList.update key x) kvs) = Policy_fields kvs"
proof (cases path)
  case Nil
  with assms(1) have "fs = [''network'', ''tools'', ''data'']"
    by (simp add: Policy_declared_def)
  with assms(2) Nil show ?thesis by (simp add: Policy_unknown)
next
  case (Cons q qs)
  show ?thesis
  proof (cases "q = ''network'' \<and> qs = []")
    case True
    with Cons have p: "path = [''network'']" by simp
    from assms(1) have fs: "fs = [''outbound'', ''allow_domains'']"
      unfolding p by (simp add: Policy_declared_def)
    have ch: "\<And>sub. NetworkPolicy_fields (update_at [] (AList.update key x) sub) = NetworkPolicy_fields sub"
      using NetworkPolicy_unknown [of key] assms(2) fs by simp
    show ?thesis
      unfolding p
      by (simp add: Policy_fields_def optional_at_child
              [where child = NetworkPolicy_fields and ps = "[]" and f = "AList.update key x", OF ch] required_at_other optional_at_other
            del: update_at.simps)
  next
    case n1: False
    show ?thesis
    proof (cases "q = ''tools'' \<and> qs = []")
      case True
      with Cons have p: "path = [''tools'']" by simp
      from assms(1) have fs: "fs = [''allow'']"
        unfolding p by (simp add: Policy_declared_def)
    have ch: "\<And>sub. ToolsPolicy_fields (update_at [] (AList.update key x) sub) = ToolsPolicy_fields sub"
      using ToolsPolicy_unknown [of key] assms(2) fs by simp
    show ?thesis
      unfolding p
      by (simp add: Policy_fields_def optional_at_child
              [where child = ToolsPolicy_fields and ps = "[]" and f = "AList.update key x", OF ch] required_at_other optional_at_other
            del: update_at.simps)
    next
      case n2: False
      show ?thesis
      proof (cases "q = ''data''")
        case True
        with Cons have p: "path = ''data'' # qs" by simp
        from assms(1) have d: "DataPolicy_declared qs = Some fs"
          unfolding p by (simp add: Policy_declared_def)
        have ch: "\<And>sub. DataPolicy_fields (update_at qs (AList.update key x) sub)
                        = DataPolicy_fields sub"
          by (rule DataPolicy_path [OF d assms(2)])
        show ?thesis
          unfolding p
          by (simp add: Policy_fields_def optional_at_child
              [where child = DataPolicy_fields and ps = qs and f = "AList.update key x", OF ch] required_at_other
                optional_at_other del: update_at.simps)
      next
        case False
        with n1 n2 Cons assms(1) have False
      by (simp add: Policy_declared_def split: if_splits)
    then show ?thesis ..
      qed
    qed
  qed
qed

lemma ModelsConfig_path:
  assumes "ModelsConfig_declared path = Some fs" and "key \<notin> YStr ` set fs"
  shows "ModelsConfig_fields (update_at path (AList.update key x) kvs) = ModelsConfig_fields kvs"
proof (cases path)
  case Nil
  with assms(1) have "fs = [''backend'', ''default'', ''map'']"
    by (simp add: ModelsConfig_declared_def)
  with assms(2) Nil show ?thesis by (simp add: ModelsConfig_unknown)
next
  case (Cons q qs)
  show ?thesis
  proof (cases "q = ''map'' \<and> length qs = 1")
    case True
    then obtain n where qs: "qs = [n]" by (cases qs) auto
    with True Cons have p: "path = [''map'', n]" by simp
    from assms(1) have fs: "fs = [''id'', ''context_window'']"
      unfolding p by (simp add: ModelsConfig_declared_def)
    have ch: "\<And>sub. ModelEntry_fields (update_at [] (AList.update key x) sub)
                    = ModelEntry_fields sub"
      using ModelEntry_unknown [of key] assms(2) fs by simp
    show ?thesis
      unfolding p
      by (simp add: ModelsConfig_fields_def optional_at_dict
              [where child = ModelEntry_fields and ps = "[]" and f = "AList.update key x", OF ch] required_at_other
            optional_at_other del: update_at.simps)
  next
    case False
    with Cons assms(1) have False
      by (simp add: ModelsConfig_declared_def split: if_splits)
    then show ?thesis ..
  qed
qed

lemma Manifest_path:
  assumes "declared_at path = Some fs" and "key \<notin> YStr ` set fs"
  shows "Manifest_fields (update_at path (AList.update key x) kvs) = Manifest_fields kvs"
proof (cases path)
  case Nil
  with assms(1) have "fs = manifest_fields" by (simp add: declared_at_def)
  with assms(2) Nil show ?thesis by (simp add: Manifest_unknown)
next
  case (Cons q qs)
  show ?thesis
  proof (cases "q = ''app'' \<and> qs = []")
    case True
    with Cons have p: "path = [''app'']" by simp
    from assms(1) have fs: "fs = [''name'', ''version'']"
      unfolding p by (simp add: declared_at_def)
    have ch: "\<And>sub. AppInfo_fields (update_at [] (AList.update key x) sub) = AppInfo_fields sub"
      using AppInfo_unknown [of key] assms(2) fs by simp
    show ?thesis
      unfolding p
      by (simp add: Manifest_fields_def required_at_child
              [where child = AppInfo_fields and ps = "[]" and f = "AList.update key x", OF ch] required_at_other
            optional_at_other del: update_at.simps)
  next
    case n0: False
    show ?thesis
  proof (cases "q = ''runtime'' \<and> qs = []")
    case True
    with Cons have p: "path = [''runtime'']" by simp
    from assms(1) have fs: "fs = [''base_url'', ''policy_mode'']"
      unfolding p by (simp add: declared_at_def)
    have ch: "\<And>sub. RuntimeConfig_fields (update_at [] (AList.update key x) sub) = RuntimeConfig_fields sub"
      using RuntimeConfig_unknown [of key] assms(2) fs by simp
    show ?thesis
      unfolding p
      by (simp add: Manifest_fields_def optional_at_child
              [where child = RuntimeConfig_fields and ps = "[]" and f = "AList.update key x", OF ch] required_at_other
            optional_at_other del: update_at.simps)
  next
    case n1: False
    show ?thesis
  proof (cases "q = ''policy''")
    case True
    with Cons have p: "path = ''policy'' # qs" by simp
    from assms(1) have d: "Policy_declared qs = Some fs"
      unfolding p by (simp add: declared_at_def)
    have ch: "\<And>sub. Policy_fields (update_at qs (AList.update key x) sub) = Policy_fields sub"
      by (rule Policy_path [OF d assms(2)])
    show ?thesis
      unfolding p
      by (simp add: Manifest_fields_def optional_at_child
              [where child = Policy_fields and ps = qs and f = "AList.update key x", OF ch] required_at_other
            optional_at_other del: update_at.simps)
  next
    case n2: False
    show ?thesis
  proof (cases "q = ''models''")
    case True
    with Cons have p: "path = ''models'' # qs" by simp
    from assms(1) have d: "ModelsConfig_declared qs = Some fs"
      unfolding p by (simp add: declared_at_def)
    have ch: "\<And>sub. ModelsConfig_fields (update_at qs (AList.update key x) sub) = ModelsConfig_fields sub"
      by (rule ModelsConfig_path [OF d assms(2)])
    show ?thesis
      unfolding p
      by (simp add: Manifest_fields_def optional_at_child
              [where child = ModelsConfig_fields and ps = qs and f = "AList.update key x", OF ch] required_at_other
            optional_at_other del: update_at.simps)
  next
    case n3: False
    show ?thesis
  proof (cases "q = ''tools'' \<and> length qs = 1")
    case True
    then obtain n where qs: "qs = [n]" by (cases qs) auto
    with True Cons have p: "path = [''tools'', n]" by simp
    from assms(1) have fs: "fs = [''type'', ''read_only'', ''max_rows'', ''max_bytes'']"
      unfolding p by (simp add: declared_at_def)
    have ch: "\<And>sub. ToolConfig_fields (update_at [] (AList.update key x) sub)
                    = ToolConfig_fields sub"
      using ToolConfig_unknown [of key] assms(2) fs by simp
    show ?thesis
      unfolding p
      by (simp add: Manifest_fields_def optional_at_dict
              [where child = ToolConfig_fields and ps = "[]" and f = "AList.update key x", OF ch] required_at_other
            optional_at_other del: update_at.simps)
  next
    case n4: False
    show ?thesis
  proof (cases "q = ''audit'' \<and> qs = []")
    case True
    with Cons have p: "path = [''audit'']" by simp
    from assms(1) have fs: "fs = [''path'', ''redact_prompt'', ''redact_tool_outputs'']"
      unfolding p by (simp add: declared_at_def)
    have ch: "\<And>sub. AuditConfig_fields (update_at [] (AList.update key x) sub) = AuditConfig_fields sub"
      using AuditConfig_unknown [of key] assms(2) fs by simp
    show ?thesis
      unfolding p
      by (simp add: Manifest_fields_def optional_at_child
              [where child = AuditConfig_fields and ps = "[]" and f = "AList.update key x", OF ch] required_at_other
            optional_at_other del: update_at.simps)
  next
    case n5: False
    show ?thesis
  proof (cases "q = ''embedding'' \<and> qs = []")
    case True
    with Cons have p: "path = [''embedding'']" by simp
    from assms(1) have fs: "fs = [''backend'', ''model'']"
      unfolding p by (simp add: declared_at_def)
    have ch: "\<And>sub. EmbeddingConfig_fields (update_at [] (AList.update key x) sub) = EmbeddingConfig_fields sub"
      using EmbeddingConfig_unknown [of key] assms(2) fs by simp
    show ?thesis
      unfolding p
      by (simp add: Manifest_fields_def optional_at_child
              [where child = EmbeddingConfig_fields and ps = "[]" and f = "AList.update key x", OF ch] required_at_other
            optional_at_other del: update_at.simps)
  next
    case n6: False
    show ?thesis
  proof (cases "q = ''vector_db'' \<and> qs = []")
    case True
    with Cons have p: "path = [''vector_db'']" by simp
    from assms(1) have fs: "fs = [''backend'', ''default_top_k'']"
      unfolding p by (simp add: declared_at_def)
    have ch: "\<And>sub. VectorConfig_fields (update_at [] (AList.update key x) sub) = VectorConfig_fields sub"
      using VectorConfig_unknown [of key] assms(2) fs by simp
    show ?thesis
      unfolding p
      by (simp add: Manifest_fields_def optional_at_child
              [where child = VectorConfig_fields and ps = "[]" and f = "AList.update key x", OF ch] required_at_other
            optional_at_other del: update_at.simps)
  next
    case n7: False
    with n0 n1 n2 n3 n4 n5 n6 n7 Cons assms(1) have False
      by (simp add: declared_at_def split: if_splits)
    then show ?thesis ..
  qed
  qed
  qed
  qed
  qed
  qed
  qed
  qed
qed

lemma keys_update_present:
  "map_of kvs k = Some v \<Longrightarrow> map fst (AList.update k w kvs) = map fst kvs"
  by (induction kvs) (auto split: if_splits)

lemma keys_update_at:
  "map fst (update_at (p # ps) f kvs) = map fst kvs"
  by (simp add: keys_update_present split: option.splits yval.splits)

lemma keys_update_str:
  "is_str key \<Longrightarrow>
   list_all is_str (map fst (AList.update key x kvs)) = list_all is_str (map fst kvs)"
  by (induction kvs) auto

lemma keys_update_nonstr:
  "\<not> is_str key \<Longrightarrow> \<not> list_all is_str (map fst (AList.update key x kvs))"
  by (induction kvs) auto

lemma Manifest_call_path:
  assumes "declared_at path = Some fs" and "key \<notin> YStr ` set fs"
    and "path = [] \<longrightarrow> is_str key"
  shows "Manifest_call (update_at path (AList.update key x) kvs) = Manifest_call kvs"
proof -
  have "list_all is_str (map fst (update_at path (AList.update key x) kvs))
          = list_all is_str (map fst kvs)"
  proof (cases path)
    case Nil
    with assms(3) show ?thesis by (simp add: keys_update_str)
  next
    case (Cons p ps)
    then show ?thesis by (simp only: keys_update_at)
  qed
  then show ?thesis
    unfolding Manifest_call_def by (simp only: Manifest_path [OF assms(1,2)])
qed

text \<open>
  Claim C6, as the code has it. The loader ignores unknown keys wherever a class of the
  manifest schema validates a mapping: at the top level, in the sections \<open>app\<close>,
  \<open>runtime\<close>, \<open>policy\<close>, \<open>models\<close>, \<open>audit\<close>, \<open>embedding\<close> and \<open>vector_db\<close>, in the mappings
  nested in them (\<open>policy.network\<close>, \<open>policy.tools\<close>, \<open>policy.data\<close> and its \<open>sqlite\<close>,
  \<open>filesystem\<close> and \<open>vector\<close>, every \<open>models.map.<name>\<close>) and in every \<open>tools.<name>\<close>. A
  document with a key added there that the class does not declare loads to the same
  result as the document without it. The one exception is a top-level key that is not a
  string, for which \<open>Manifest(**data)\<close> raises \<open>TypeError\<close>.
\<close>

theorem unknown_keys_ignored:
  "(declared_at path = Some declared \<and> key \<notin> YStr ` set declared
      \<and> (path = [] \<longrightarrow> is_str key) \<longrightarrow>
      load_manifest (fs(doc_path \<mapsto> Inr (YMap (update_at path (AList.update key x) kvs)))) doc_path
        = load_manifest (fs(doc_path \<mapsto> Inr (YMap kvs))) doc_path)
   \<and> (\<not> is_str key \<longrightarrow>
      load_manifest (fs(doc_path \<mapsto> Inr (YMap (AList.update key x kvs)))) doc_path
        = Inl (TypeError ''keywords must be strings''))"
  by (simp add: load_manifest_def Manifest_call_path)
     (simp add: Manifest_call_def keys_update_nonstr)

theorem unknown_keys_ignored_witness:
  "load_manifest
      [''domekit.yaml'' \<mapsto>
         Inr (YMap [(YStr ''app'', YMap [(YStr ''name'', YStr ''test-app'')]),
                    (YStr ''policy'',
                     YMap [(YStr ''network'',
                            YMap [(YStr ''outbound'', YStr ''deny''),
                                  (YStr ''proxy'', YStr ''none'')])])])]
      ''domekit.yaml''
   = load_manifest
      [''domekit.yaml'' \<mapsto>
         Inr (YMap [(YStr ''app'', YMap [(YStr ''name'', YStr ''test-app'')]),
                    (YStr ''policy'',
                     YMap [(YStr ''network'', YMap [(YStr ''outbound'', YStr ''deny'')])])])]
      ''domekit.yaml''
   \<and> load_manifest
      [''domekit.yaml'' \<mapsto>
         Inr (YMap [(YStr ''app'', YMap [(YStr ''name'', YStr ''test-app'')]),
                    (YStr ''tools'',
                     YMap [(YStr ''sql_query'',
                            YMap [(YStr ''max_rows'', YInt 50),
                                  (YStr ''timeout'', YInt 3)])])])]
      ''domekit.yaml''
   = load_manifest
      [''domekit.yaml'' \<mapsto>
         Inr (YMap [(YStr ''app'', YMap [(YStr ''name'', YStr ''test-app'')]),
                    (YStr ''tools'',
                     YMap [(YStr ''sql_query'', YMap [(YStr ''max_rows'', YInt 50)])])])]
      ''domekit.yaml''
   \<and> load_manifest
      [''domekit.yaml'' \<mapsto>
         Inr (YMap [(YStr ''app'', YMap [(YStr ''name'', YStr ''test-app'')]),
                    (YInt 1, YStr ''one'')])]
      ''domekit.yaml''
   = Inl (TypeError ''keywords must be strings'')"
proof -
  let ?app = "(YStr ''app'', YMap [(YStr ''name'', YStr ''test-app'')])"
  let ?d1 = "[?app, (YStr ''policy'',
                     YMap [(YStr ''network'', YMap [(YStr ''outbound'', YStr ''deny'')])])]"
  let ?d2 = "[?app, (YStr ''tools'',
                     YMap [(YStr ''sql_query'', YMap [(YStr ''max_rows'', YInt 50)])])]"
  have p1: "declared_at [''policy'', ''network''] = Some [''outbound'', ''allow_domains'']"
    by (simp add: declared_at_def Policy_declared_def)
  have k1: "YStr ''proxy'' \<notin> YStr ` set [''outbound'', ''allow_domains'']" by simp
  have n1: "[''policy'', ''network''] = [] \<longrightarrow> is_str (YStr ''proxy'')" by simp
  have u1: "update_at [''policy'', ''network''] (AList.update (YStr ''proxy'') (YStr ''none'')) ?d1
            = [?app, (YStr ''policy'',
                      YMap [(YStr ''network'',
                             YMap [(YStr ''outbound'', YStr ''deny''),
                                   (YStr ''proxy'', YStr ''none'')])])]"
    by simp
  have p2: "declared_at [''tools'', ''sql_query'']
              = Some [''type'', ''read_only'', ''max_rows'', ''max_bytes'']"
    by (simp add: declared_at_def)
  have k2: "YStr ''timeout'' \<notin> YStr ` set [''type'', ''read_only'', ''max_rows'', ''max_bytes'']"
    by simp
  have n2: "[''tools'', ''sql_query''] = [] \<longrightarrow> is_str (YStr ''timeout'')" by simp
  have u2: "update_at [''tools'', ''sql_query''] (AList.update (YStr ''timeout'') (YInt 3)) ?d2
            = [?app, (YStr ''tools'',
                      YMap [(YStr ''sql_query'',
                             YMap [(YStr ''max_rows'', YInt 50),
                                   (YStr ''timeout'', YInt 3)])])]"
    by simp
  have k3: "\<not> is_str (YInt 1)" by (simp add: is_str_def)
  have u3: "AList.update (YInt 1) (YStr ''one'') [?app] = [?app, (YInt 1, YStr ''one'')]"
    by simp
  have a: "load_manifest
             [''domekit.yaml'' \<mapsto> Inr (YMap (update_at [''policy'', ''network'']
                (AList.update (YStr ''proxy'') (YStr ''none'')) ?d1))] ''domekit.yaml''
           = load_manifest [''domekit.yaml'' \<mapsto> Inr (YMap ?d1)] ''domekit.yaml''"
    using unknown_keys_ignored
            [where fs = Map.empty and doc_path = "''domekit.yaml''"
               and path = "[''policy'', ''network'']" and key = "YStr ''proxy''"
               and x = "YStr ''none''" and kvs = ?d1
               and declared = "[''outbound'', ''allow_domains'']",
             THEN conjunct1, THEN mp, OF conjI [OF p1 conjI [OF k1 n1]]] .
  have b: "load_manifest
             [''domekit.yaml'' \<mapsto> Inr (YMap (update_at [''tools'', ''sql_query'']
                (AList.update (YStr ''timeout'') (YInt 3)) ?d2))] ''domekit.yaml''
           = load_manifest [''domekit.yaml'' \<mapsto> Inr (YMap ?d2)] ''domekit.yaml''"
    using unknown_keys_ignored
            [where fs = Map.empty and doc_path = "''domekit.yaml''"
               and path = "[''tools'', ''sql_query'']" and key = "YStr ''timeout''"
               and x = "YInt 3" and kvs = ?d2
               and declared = "[''type'', ''read_only'', ''max_rows'', ''max_bytes'']",
             THEN conjunct1, THEN mp, OF conjI [OF p2 conjI [OF k2 n2]]] .
  have c: "load_manifest
             [''domekit.yaml'' \<mapsto> Inr (YMap (AList.update (YInt 1) (YStr ''one'') [?app]))]
             ''domekit.yaml''
           = Inl (TypeError ''keywords must be strings'')"
    using unknown_keys_ignored
            [where fs = Map.empty and doc_path = "''domekit.yaml''" and key = "YInt 1"
               and x = "YStr ''one''" and kvs = "[?app]",
             THEN conjunct2, THEN mp, OF k3] .
  from a b c show ?thesis by (simp only: u1 u2 u3 simp_thms)
qed

text \<open>
  The claim as stated has such a document rejected. A document whose \<open>app\<close> section
  carries the unknown key \<open>colour\<close> loads, and gives the manifest of defaults.
\<close>

theorem unknown_section_key_counterexample:
  "load_manifest
      [''domekit.yaml'' \<mapsto>
         Inr (YMap [(YStr ''app'',
                     YMap [(YStr ''name'', YStr ''test-app''), (YStr ''colour'', YStr ''red'')])])]
      ''domekit.yaml''
   = Inr (make_manifest LOCAL_ONLY [] [] [] [])"
  by (simp add: load_manifest_def Manifest_call_def is_str_def Manifest_fields_def required_def
        optional_def v_model_def AppInfo_fields_def v_str_def and_then_def make_manifest_def
        default_Policy_def default_DataPolicy_def)

end
